theory Spec2Isabelle
  imports Main
begin

section \<open>Values shared by the whole module\<close>

text \<open>
  Byte strings (Python 2 \<open>str\<close>) and text are both lists of characters.  Every
  exception class that \<open>lib/pfile.py\<close> raises or lets escape is a constructor of
  \<open>error\<close>; a call that can raise returns \<open>error + 'a\<close> with \<open>Inl\<close> for the raise.
  \<open>KeyError\<close> carries the key that was looked up, \<open>OtherError\<close> is an exception of a
  library class outside this list (\<open>zipfile.BadZipfile\<close>, \<open>tarfile.ReadError\<close>).
\<close>

type_synonym bytes = string

datatype error =
    IOError string
  | RuntimeError string
  | KeyError string
  | AttributeError string
  | TypeError string
  | OSError string
  | NotImplementedError
  | UnableToOpenFile string
  | OtherError string

text \<open>
  The format \<open>%d\<close> of an integer: its decimal digits, with a leading minus sign
  for a negative number.
\<close>

definition digit :: "nat \<Rightarrow> char" where
  "digit d = char_of (48 + d)"

function str_nat :: "nat \<Rightarrow> string" where
  "str_nat n = (if n < 10 then [digit n] else str_nat (n div 10) @ [digit (n mod 10)])"
  by pat_completeness auto
termination
  by (relation "measure id") auto

declare str_nat.simps [simp del]

definition str_int :: "int \<Rightarrow> string" where
  "str_int i = (if i < 0 then CHR ''-'' # str_nat (nat (- i)) else str_nat (nat i))"

section \<open>The libraries behind the handlers\<close>

text \<open>
  A file object of a library (a host file, a sleuthkit file, a \<open>ZipExtFile\<close>, a
  \<open>gzip.GzipFile\<close>, a \<open>bz2.BZ2File\<close>, a tar \<open>ExFileObject\<close>): the bytes it
  delivers and the read position.  \<open>seekable\<close> is false for an object whose \<open>seek\<close>
  raises \<open>NotImplementedError\<close>.
\<close>

record stream =
  data :: bytes
  pos :: nat
  seekable :: bool

text \<open>
  \<open>f.read(n)\<close>: without a size, or with a negative one, everything that is left;
  otherwise at most \<open>n\<close> bytes.
\<close>

definition stream_read :: "int option \<Rightarrow> stream \<Rightarrow> bytes \<times> stream" where
  "stream_read n f =
     (let rest = drop (pos f) (data f);
          chunk = (case n of None \<Rightarrow> rest
                   | Some k \<Rightarrow> if k < 0 then rest else take (nat k) rest)
      in (chunk, f\<lparr>pos := pos f + length chunk\<rparr>))"

text \<open>
  The read of a tar member.  The comment in \<open>TarFile.read\<close> reports that it "sometimes
  read[s] in way more than the size here indicates": \<open>over p n\<close> is the number of bytes
  it returns beyond the \<open>n\<close> asked for at position \<open>p\<close>.
\<close>

definition ExFileObject_read ::
  "(nat \<Rightarrow> nat \<Rightarrow> nat) \<Rightarrow> int option \<Rightarrow> stream \<Rightarrow> bytes \<times> stream" where
  "ExFileObject_read over n f =
     (let rest = drop (pos f) (data f);
          chunk = (case n of None \<Rightarrow> rest
                   | Some k \<Rightarrow> if k < 0 then rest
                              else take (nat k + over (pos f) (nat k)) rest)
      in (chunk, f\<lparr>pos := pos f + length chunk\<rparr>))"

text \<open>\<open>f.seek(offset, whence)\<close> and \<open>f.tell()\<close>.\<close>

definition stream_seek :: "int \<Rightarrow> int \<Rightarrow> stream \<Rightarrow> error + stream" where
  "stream_seek off whence f =
     (if \<not> seekable f then Inl NotImplementedError
      else if whence = 0 \<or> whence = 1 \<or> whence = 2 then
        (let target = (if whence = 0 then off
                       else if whence = 1 then int (pos f) + off
                       else int (length (data f)) + off)
         in if target < 0 then Inl (IOError ''Invalid argument'')
            else Inr (f\<lparr>pos := nat target\<rparr>))
      else Inl (IOError ''Invalid argument''))"

definition stream_tell :: "stream \<Rightarrow> int" where
  "stream_tell f = int (pos f)"

text \<open>Python slices \<open>s[:n]\<close> and \<open>s[n:]\<close>; a negative \<open>n\<close> counts from the end.\<close>

definition slice_to :: "'a list \<Rightarrow> int \<Rightarrow> 'a list" where
  "slice_to s n = (if 0 \<le> n then take (nat n) s else take (length s - nat (- n)) s)"

definition slice_from :: "'a list \<Rightarrow> int \<Rightarrow> 'a list" where
  "slice_from s n = (if 0 \<le> n then drop (nat n) s else drop (length s - nat (- n)) s)"

text \<open>
  What the libraries return.  \<open>stat_result\<close> is the result of \<open>os.stat\<close>; a
  \<open>ZipInfo\<close> is an entry of a ZIP directory, with \<open>zip_open\<close> for what
  \<open>zf.open(name, 'r')\<close> gives for it; a \<open>tsk_file\<close> is the object of
  \<open>sleuthkit.Open\<close>, with its bytes and \<open>fileobj.info.meta\<close> (the fields the
  filesystem supplies, by name; \<open>None\<close> when there is no metadata).
\<close>

record stat_result =
  st_mode :: int
  st_ino :: int
  st_dev :: int
  st_nlink :: int
  st_uid :: int
  st_gid :: int
  st_size :: int
  st_atime :: int
  st_mtime :: int
  st_ctime :: int

record ZipInfo =
  file_size :: nat
  date_time :: int
  zip_open :: "error + bytes"

record tsk_file =
  tsk_data :: bytes
  tsk_meta :: "(string \<rightharpoonup> int) option"

text \<open>
  The libraries, as far as this module calls them; each call either raises or returns.
  Volumes: \<open>Img_Info\<close> is \<open>pytsk3.Img_Info(path)\<close>, \<open>FS_Info\<close> is
  \<open>pytsk3.FS_Info(img, offset=offset)\<close>, \<open>VShadowVolume\<close> stands for
  \<open>vss.VShadowVolume(path, offset)\<close> followed by \<open>volume.open_file_object(fh)\<close>,
  \<open>get_store\<close> is \<open>volume.get_store(store_nr)\<close>, \<open>VShadowImgInfo\<close> is
  \<open>vss.VShadowImgInfo(store)\<close>, \<open>sleuthkit_Open\<close> is \<open>sleuthkit.Open(fs, inode, path)\<close>
  and \<open>ftype\<close> is \<open>str(fs.info.ftype)\<close>.  The objects \<open>fs\<close>, \<open>img\<close>, \<open>volume\<close> and
  \<open>store\<close> are opaque handles, modelled as numbers.
  Host files: \<open>os_open\<close> is \<open>open(path, 'rb')\<close> (the bytes of the file) and \<open>os_stat\<close>
  is \<open>os.stat(path)\<close>.
  Containers, each applied to the bytes of the container: \<open>zipfile_ZipFile\<close> gives the
  directory of a ZIP file, \<open>gzip_GzipFile\<close> the decoded stream that the first read of
  a \<open>gzip.GzipFile\<close> starts (or the \<open>IOError\<close> of that read), \<open>gzip_size\<close> its \<open>size\<close>
  attribute after that read (\<open>None\<close> when the attribute is missing), \<open>bz2_BZ2File\<close>
  the decoded stream of a \<open>bz2.BZ2File\<close>, \<open>tarfile_open\<close> the members of a TAR file
  (\<open>None\<close> for a member that is not a regular file, for which \<open>extractfile\<close> returns
  \<open>None\<close>), \<open>over_read\<close> the bytes a tar member read returns beyond its size, and
  \<open>Timetuple2Timestamp\<close> is \<open>timelib.Timetuple2Timestamp\<close>.
\<close>

record library =
  Img_Info :: "string \<Rightarrow> error + nat"
  FS_Info :: "nat \<Rightarrow> int \<Rightarrow> error + nat"
  VShadowVolume :: "string \<Rightarrow> int \<Rightarrow> error + nat"
  get_store :: "nat \<Rightarrow> int \<Rightarrow> error + nat"
  VShadowImgInfo :: "nat \<Rightarrow> error + nat"
  sleuthkit_Open :: "nat \<Rightarrow> int \<Rightarrow> string \<Rightarrow> error + tsk_file"
  ftype :: "nat \<Rightarrow> string"
  os_open :: "string \<Rightarrow> error + bytes"
  os_stat :: "string \<Rightarrow> error + stat_result"
  zipfile_ZipFile :: "bytes \<Rightarrow> error + (string \<rightharpoonup> ZipInfo)"
  gzip_GzipFile :: "bytes \<Rightarrow> error + bytes"
  gzip_size :: "bytes \<Rightarrow> nat option"
  bz2_BZ2File :: "bytes \<Rightarrow> error + bytes"
  tarfile_open :: "bytes \<Rightarrow> error + (string \<rightharpoonup> bytes option)"
  over_read :: "nat \<Rightarrow> nat \<Rightarrow> nat"
  Timetuple2Timestamp :: "int \<Rightarrow> int"

section \<open>The filesystem cache\<close>

text \<open>
  \<open>FilesystemContainer\<close> keeps what \<open>__init__\<close> stores, in the order of its
  parameters (\<open>fs\<close>, \<open>img\<close>, \<open>path\<close>, \<open>offset\<close>, \<open>volume\<close>, \<open>store_nr\<close>).  The
  object is never changed after its construction; \<open>object_id\<close> is its identity (what
  Python's \<open>is\<close> compares), the number of objects constructed before it.
\<close>

datatype FilesystemContainer =
  FilesystemContainer (object_id: nat) (fc_fs: nat) (fc_img: nat) (fc_path: string)
    (fc_offset: int) (fc_volume: "nat option") (fc_store_nr: int)

text \<open>
  The calls made to the volume libraries are recorded in the order they happen, so that
  "no volume was opened" is a statement about the state.
\<close>

datatype volume_call =
    Call_Img_Info string
  | Call_FS_Info nat int
  | Call_VShadowVolume string int
  | Call_get_store nat int
  | Call_VShadowImgInfo nat

text \<open>
  The class attribute \<open>FilesystemCache.cached_filesystems\<close> is a dictionary shared by
  the whole process.  \<open>constructed\<close> counts the \<open>FilesystemContainer\<close> objects
  constructed so far, \<open>volume_calls\<close> is the record of library calls.
\<close>

record state =
  cached_filesystems :: "string \<rightharpoonup> FilesystemContainer"
  constructed :: nat
  volume_calls :: "volume_call list"

definition initial_state :: state where
  "initial_state = \<lparr>cached_filesystems = Map.empty, constructed = 0, volume_calls = []\<rparr>"

definition called :: "volume_call \<Rightarrow> state \<Rightarrow> state" where
  "called c s = s\<lparr>volume_calls := volume_calls s @ [c]\<rparr>"

definition OpenTskImage ::
  "library \<Rightarrow> string \<Rightarrow> int \<Rightarrow> state \<Rightarrow> (error + FilesystemContainer) \<times> state" where
  "OpenTskImage lib path offset s =
     (let s1 = called (Call_Img_Info path) s in
      case Img_Info lib path of
        Inl e \<Rightarrow> (Inl e, s1)
      | Inr img \<Rightarrow>
          (let s2 = called (Call_FS_Info img offset) s1 in
           case FS_Info lib img offset of
             Inl e \<Rightarrow> (Inl e, s2)
           | Inr fs \<Rightarrow>
               (Inr (FilesystemContainer (constructed s2) fs img path offset None (- 1)),
                s2\<lparr>constructed := Suc (constructed s2)\<rparr>)))"

definition OpenVssImage ::
  "library \<Rightarrow> string \<Rightarrow> int \<Rightarrow> int \<Rightarrow> state \<Rightarrow> (error + FilesystemContainer) \<times> state" where
  "OpenVssImage lib path store_nr offset s =
     (let s1 = called (Call_VShadowVolume path offset) s in
      case VShadowVolume lib path offset of
        Inl e \<Rightarrow> (Inl e, s1)
      | Inr volume \<Rightarrow>
          (let s2 = called (Call_get_store volume store_nr) s1 in
           case get_store lib volume store_nr of
             Inl e \<Rightarrow> (Inl e, s2)
           | Inr store \<Rightarrow>
               (let s3 = called (Call_VShadowImgInfo store) s2 in
                case VShadowImgInfo lib store of
                  Inl e \<Rightarrow> (Inl e, s3)
                | Inr img \<Rightarrow>
                    (let s4 = called (Call_FS_Info img 0) s3 in
                     case FS_Info lib img 0 of
                       Inl e \<Rightarrow> (Inl e, s4)
                     | Inr fs \<Rightarrow>
                         (Inr (FilesystemContainer (constructed s4) fs img path offset
                                 (Some volume) store_nr),
                          s4\<lparr>constructed := Suc (constructed s4)\<rparr>)))))"

definition fs_hash :: "string \<Rightarrow> int \<Rightarrow> int \<Rightarrow> string" where
  "fs_hash path offset store_nr = path @ '':'' @ str_int offset @ '':'' @ str_int store_nr"

definition FilesystemCache_Open ::
  "library \<Rightarrow> string \<Rightarrow> int \<Rightarrow> int \<Rightarrow> state \<Rightarrow> (error + FilesystemContainer) \<times> state" where
  "FilesystemCache_Open lib path offset store_nr s =
     (case cached_filesystems s (fs_hash path offset store_nr) of
        Some fs \<Rightarrow> (Inr fs, s)
      | None \<Rightarrow>
          (case (if 0 \<le> store_nr then OpenVssImage lib path store_nr offset s
                 else OpenTskImage lib path offset s) of
             (Inl e, s') \<Rightarrow> (Inl e, s')
           | (Inr fs, s') \<Rightarrow>
               (Inr fs, s'\<lparr>cached_filesystems :=
                             (cached_filesystems s')(fs_hash path offset store_nr \<mapsto> fs)\<rparr>)))"

section \<open>The stat projection\<close>

text \<open>
  The values a \<open>Stats\<close> object holds: integers (modes, identifiers, sizes, times), text
  (\<open>os_type\<close>) and, as \<open>Other\<close>, any other Python object (a method, a dictionary).
\<close>

datatype pyval = IntV int | StrV string | Other

text \<open>
  A \<open>Stats\<close> object.  \<open>object_attributes\<close> is what \<open>object.__getattribute__\<close> finds on
  it (the names of the instance, of the class and of \<open>object\<close>; \<open>None\<close> where it raises
  \<open>AttributeError\<close>), \<open>attributes\<close> is the dictionary \<open>self.attributes\<close>.
\<close>

record Stats =
  object_attributes :: "string \<rightharpoonup> pyval"
  attributes :: "string \<rightharpoonup> pyval"

text \<open>
  \<open>Stats()\<close>: the names of a new instance of the class (Python 2.7, a new-style class
  with the four methods and the class attribute of its body), and an empty dictionary.
\<close>

definition Stats_names :: "string list" where
  "Stats_names =
     [''attributes'', ''__init__'', ''__setattr__'', ''__iter__'', ''__getattr__'',
      ''__class__'', ''__delattr__'', ''__dict__'', ''__doc__'', ''__format__'',
      ''__getattribute__'', ''__hash__'', ''__module__'', ''__new__'', ''__reduce__'',
      ''__reduce_ex__'', ''__repr__'', ''__sizeof__'', ''__str__'', ''__subclasshook__'',
      ''__weakref__'']"

definition Stats_new :: Stats where
  "Stats_new =
     \<lparr>object_attributes = map_of (map (\<lambda>n. (n, Other)) Stats_names),
      attributes = Map.empty\<rparr>"

definition Stats_setattr :: "Stats \<Rightarrow> string \<Rightarrow> pyval \<Rightarrow> Stats" where
  "Stats_setattr ret attr v =
     (case object_attributes ret attr of
        Some _ \<Rightarrow> ret\<lparr>object_attributes := (object_attributes ret)(attr \<mapsto> v)\<rparr>
      | None \<Rightarrow> ret\<lparr>attributes := (attributes ret)(attr \<mapsto> v)\<rparr>)"

definition Stats_getattr :: "Stats \<Rightarrow> string \<Rightarrow> error + pyval" where
  "Stats_getattr ret attr =
     (case object_attributes ret attr of
        Some v \<Rightarrow> Inr v
      | None \<Rightarrow>
          (case attributes ret attr of
             Some v \<Rightarrow> Inr v
           | None \<Rightarrow> Inl (AttributeError ''Attribute not defined'')))"

text \<open>\<open>getattr(ret, attr, default)\<close>: the default stands in for an \<open>AttributeError\<close>.\<close>

definition getattr_default :: "Stats \<Rightarrow> string \<Rightarrow> pyval \<Rightarrow> error + pyval" where
  "getattr_default ret attr d =
     (case Stats_getattr ret attr of
        Inr v \<Rightarrow> Inr v
      | Inl (AttributeError _) \<Rightarrow> Inr d
      | Inl e \<Rightarrow> Inl e)"

section \<open>Path specifications and handlers\<close>

text \<open>
  The \<open>PathSpec\<close> protobuf: \<open>HasField\<close> of an optional field is \<open>\<noteq> None\<close>.
\<close>

datatype FileType = UNSET | OS | TSK | VSS | ZIP | GZIP | BZ2 | TAR

datatype PathSpec =
  PathSpec (type: FileType) (file_path: string) (container_path: string)
    (image_offset: "int option") (image_inode: "int option")
    (vss_store_number: "int option") (nested_pathspec: "PathSpec option")

text \<open>
  The attributes of a handler object.  \<open>class_TYPE\<close> is the \<open>TYPE\<close> of its class and
  selects its methods; \<open>size'\<close> is \<open>self.size\<close>, \<open>priv_fs\<close> and \<open>priv_fs_obj\<close> are
  \<open>self._fs\<close> and \<open>self._fs_obj\<close>, \<open>meta\<close> is \<open>self.fh.fileobj.info.meta\<close> of a
  sleuthkit file.  \<open>display_name\<close> and \<open>zipinfo\<close> are \<open>None\<close> until \<open>Open\<close> creates
  them; the other attributes that \<open>Open\<close> creates hold the value \<open>__init__\<close> gives them
  here, and no method reads them while \<open>fh\<close> is unset.
\<close>

record handler =
  class_TYPE :: FileType
  pathspec :: PathSpec
  pathspec_root :: PathSpec
  name :: string
  display_name :: "string option"
  fh :: "stream option"
  size' :: nat
  inode :: pyval
  offset :: int
  zipinfo :: "ZipInfo option"
  buffer :: bytes
  priv_fs :: nat
  priv_fs_obj :: "FilesystemContainer option"
  meta :: "(string \<rightharpoonup> int) option"

text \<open>
  A handler together with the handler it was opened on: \<open>upstream\<close> is the
  \<open>filehandle\<close> argument of \<open>Open\<close>, which the object reads through (\<open>orig_fh\<close> of a
  \<open>ZipFile\<close>, the \<open>fileobj\<close> of the library stream of the other classes).
\<close>

datatype PlasoFile = PlasoFile (attrs: handler) (upstream: "PlasoFile option")

definition new_stream :: "bytes \<Rightarrow> stream" where
  "new_stream b = \<lparr>data = b, pos = 0, seekable = True\<rparr>"

text \<open>What a library reads through a handler: all the bytes of its stream.\<close>

definition contents :: "PlasoFile \<Rightarrow> bytes" where
  "contents h = (case fh (attrs h) of None \<Rightarrow> [] | Some f \<Rightarrow> data f)"

definition PlasoFile_init :: "FileType \<Rightarrow> PathSpec \<Rightarrow> PathSpec option \<Rightarrow> error + handler" where
  "PlasoFile_init cls proto root =
     (if type proto \<noteq> cls then Inl (UnableToOpenFile ''Unable to handle this file type.'')
      else Inr \<lparr>class_TYPE = cls, pathspec = proto,
                pathspec_root = (case root of Some r \<Rightarrow> r | None \<Rightarrow> proto),
                name = '''', display_name = None, fh = None, size' = 0, inode = IntV 0,
                offset = 0, zipinfo = None, buffer = '''', priv_fs = 0,
                priv_fs_obj = None, meta = None\<rparr>)"

definition PlasoFile_str :: "handler \<Rightarrow> string" where
  "PlasoFile_str self = (case display_name self of Some d \<Rightarrow> d | None \<Rightarrow> ''Unknown File'')"

subsection \<open>The methods of the base class\<close>

definition PlasoFile_seek :: "int \<Rightarrow> int \<Rightarrow> handler \<Rightarrow> error + handler" where
  "PlasoFile_seek off whence self =
     (case fh self of
        Some f \<Rightarrow>
          (case stream_seek off whence f of
             Inl e \<Rightarrow> Inl e
           | Inr f' \<Rightarrow> Inr (self\<lparr>fh := Some f'\<rparr>))
      | None \<Rightarrow> Inl (RuntimeError ''Unable to seek into a file that is not open.''))"

definition PlasoFile_read :: "int option \<Rightarrow> handler \<Rightarrow> bytes \<times> handler" where
  "PlasoFile_read n self =
     (case fh self of
        Some f \<Rightarrow> (let (line, f') = stream_read n f in (line, self\<lparr>fh := Some f'\<rparr>))
      | None \<Rightarrow> ('''', self))"

definition PlasoFile_tell :: "handler \<Rightarrow> int" where
  "PlasoFile_tell self = (case fh self of Some f \<Rightarrow> stream_tell f | None \<Rightarrow> 0)"

definition PlasoFile_close :: "handler \<Rightarrow> handler" where
  "PlasoFile_close self = (case fh self of Some f \<Rightarrow> self\<lparr>fh := None\<rparr> | None \<Rightarrow> self)"

subsection \<open>Stat\<close>

text \<open>
  One \<open>try: ... except AttributeError: pass\<close> block of \<open>TskFile.Stat\<close>: the assignments
  \<open>ret.field = meta.source\<close> in order, up to the first source that \<open>meta\<close> lacks.
\<close>

fun try_block :: "(string \<rightharpoonup> int) \<Rightarrow> (string \<times> string) list \<Rightarrow> Stats \<Rightarrow> Stats" where
  "try_block m [] ret = ret"
| "try_block m ((field, source) # rest) ret =
     (case m source of
        None \<Rightarrow> ret
      | Some v \<Rightarrow> try_block m rest (Stats_setattr ret field (IntV v)))"

definition TskFile_Stat :: "library \<Rightarrow> handler \<Rightarrow> error + Stats" where
  "TskFile_Stat lib self =
     (let ret = Stats_new in
      case fh self of
        None \<Rightarrow> Inr ret
      | Some _ \<Rightarrow>
          (case meta self of
             None \<Rightarrow> Inr ret
           | Some m \<Rightarrow>
               (case m ''mode'' of
                  None \<Rightarrow> Inl (AttributeError ''mode'')
                | Some mode \<Rightarrow>
                    (let ret = Stats_setattr ret ''mode'' (IntV mode);
                         ret = try_block m [(''ino'', ''addr'')] ret;
                         ret = try_block m [(''nlink'', ''nlink'')] ret;
                         ret = try_block m [(''uid'', ''uid''), (''gid'', ''gid'')] ret;
                         ret = try_block m [(''size'', ''size'')] ret;
                         ret = try_block m
                                 [(''atime'', ''atime''), (''atime_nano'', ''atime_nano'')] ret;
                         ret = try_block m
                                 [(''crtime'', ''crtime''), (''crtime_nano'', ''crtime_nano'')] ret;
                         ret = try_block m
                                 [(''mtime'', ''mtime''), (''mtime_nano'', ''mtime_nano'')] ret;
                         ret = try_block m
                                 [(''ctime'', ''ctime''), (''ctime_nano'', ''ctime_nano'')] ret;
                         ret = try_block m
                                 [(''dtime'', ''ctime''), (''dtime_nano'', ''ctime_nano'')] ret;
                         ret = try_block m
                                 [(''bkup_time'', ''ctime''), (''bkup_time_nano'', ''ctime_nano'')]
                                 ret;
                         fs_type = ftype lib (priv_fs self)
                     in Inr (Stats_setattr ret ''os_type''
                               (StrV (if length fs_type > 12 then drop 12 fs_type
                                      else fs_type)))))))"

definition OsFile_Stat :: "library \<Rightarrow> handler \<Rightarrow> error + Stats" where
  "OsFile_Stat lib self =
     (let ret = Stats_new in
      case fh self of
        None \<Rightarrow> Inr ret
      | Some _ \<Rightarrow>
          (case os_stat lib (name self) of
             Inl e \<Rightarrow> Inl e
           | Inr stat \<Rightarrow>
               (let ret = Stats_setattr ret ''mode'' (IntV (st_mode stat));
                    ret = Stats_setattr ret ''ino'' (IntV (st_ino stat));
                    ret = Stats_setattr ret ''dev'' (IntV (st_dev stat));
                    ret = Stats_setattr ret ''nlink'' (IntV (st_nlink stat));
                    ret = Stats_setattr ret ''uid'' (IntV (st_uid stat));
                    ret = Stats_setattr ret ''gid'' (IntV (st_gid stat));
                    ret = Stats_setattr ret ''size'' (IntV (st_size stat));
                    ret = Stats_setattr ret ''atime'' (IntV (st_atime stat));
                    ret = Stats_setattr ret ''mtime'' (IntV (st_mtime stat));
                    ret = Stats_setattr ret ''ctime'' (IntV (st_ctime stat))
                in Inr (Stats_setattr ret ''os_type'' (StrV ''Unknown'')))))"

definition ZipFile_Stat :: "library \<Rightarrow> handler \<Rightarrow> error + Stats" where
  "ZipFile_Stat lib self =
     (let ret = Stats_new in
      case fh self of
        None \<Rightarrow> Inr ret
      | Some _ \<Rightarrow>
          (case zipinfo self of
             None \<Rightarrow> Inl (AttributeError ''zipinfo'')
           | Some info \<Rightarrow>
               (let ret = Stats_setattr ret ''ctime''
                            (IntV (Timetuple2Timestamp lib (date_time info)));
                    ret = Stats_setattr ret ''ino'' (inode self);
                    ret = Stats_setattr ret ''size'' (IntV (int (file_size info)))
                in Inr (Stats_setattr ret ''os_type'' (StrV ''ZIP Container'')))))"

definition GzipFile_Stat :: "handler \<Rightarrow> error + Stats" where
  "GzipFile_Stat self =
     (let ret = Stats_new in
      case fh self of
        None \<Rightarrow> Inr ret
      | Some _ \<Rightarrow>
          (let ret = Stats_setattr ret ''size'' (IntV (int (size' self)));
               ret = Stats_setattr ret ''ino'' (inode self)
           in Inr (Stats_setattr ret ''os_type'' (StrV ''GZ File''))))"

definition Bz2File_Stat :: "handler \<Rightarrow> error + Stats" where
  "Bz2File_Stat self =
     (let ret = Stats_new in
      case fh self of
        None \<Rightarrow> Inr ret
      | Some _ \<Rightarrow>
          (let ret = Stats_setattr ret ''ino'' (inode self)
           in Inr (Stats_setattr ret ''os_type'' (StrV ''BZ2 container''))))"

definition TarFile_Stat :: "handler \<Rightarrow> error + Stats" where
  "TarFile_Stat self =
     (let ret = Stats_new in
      case fh self of
        None \<Rightarrow> Inr ret
      | Some _ \<Rightarrow>
          (let ret = Stats_setattr ret ''ino'' (inode self)
           in Inr (Stats_setattr ret ''os_type'' (StrV ''Tar container''))))"

text \<open>\<open>self.Stat()\<close>: the method of the object's class (\<open>VssFile\<close> inherits \<open>TskFile\<close>'s).\<close>

definition Stat :: "library \<Rightarrow> handler \<Rightarrow> error + Stats" where
  "Stat lib self =
     (case class_TYPE self of
        UNSET \<Rightarrow> Inl NotImplementedError
      | OS \<Rightarrow> OsFile_Stat lib self
      | TSK \<Rightarrow> TskFile_Stat lib self
      | VSS \<Rightarrow> TskFile_Stat lib self
      | ZIP \<Rightarrow> ZipFile_Stat lib self
      | GZIP \<Rightarrow> GzipFile_Stat self
      | BZ2 \<Rightarrow> Bz2File_Stat self
      | TAR \<Rightarrow> TarFile_Stat self)"

text \<open>\<open>getattr(filehandle.Stat(), 'ino', 0)\<close>.\<close>

definition Stat_ino :: "library \<Rightarrow> PlasoFile \<Rightarrow> error + pyval" where
  "Stat_ino lib filehandle =
     (case Stat lib (attrs filehandle) of
        Inl e \<Rightarrow> Inl e
      | Inr ret \<Rightarrow> getattr_default ret ''ino'' (IntV 0))"

subsection \<open>ZipFile\<close>

text \<open>
  \<open>zf.getinfo(name)\<close> raises \<open>KeyError\<close> for a name the archive lacks;
  \<open>zf.open(name, 'r')\<close> then gives the member's stream or raises, and only a
  \<open>RuntimeError\<close> of it is turned into an \<open>IOError\<close>.
\<close>

definition ZipFile_Open :: "library \<Rightarrow> handler \<Rightarrow> PlasoFile option \<Rightarrow> error + PlasoFile" where
  "ZipFile_Open lib self filehandle =
     (case (case filehandle of
              Some up \<Rightarrow>
                (case zipfile_ZipFile lib (contents up) of
                   Inl e \<Rightarrow> Inl e
                 | Inr zf \<Rightarrow>
                     (case Stat_ino lib up of
                        Inl e \<Rightarrow> Inl e
                      | Inr ino \<Rightarrow> Inr (zf, name (attrs up), ino)))
            | None \<Rightarrow>
                (let path_name = container_path (pathspec self) in
                 case os_open lib path_name of
                   Inl e \<Rightarrow> Inl e
                 | Inr raw \<Rightarrow>
                     (case zipfile_ZipFile lib raw of
                        Inl e \<Rightarrow> Inl e
                      | Inr zf \<Rightarrow>
                          (case os_stat lib path_name of
                             Inl e \<Rightarrow> Inl e
                           | Inr stat \<Rightarrow> Inr (zf, path_name, IntV (st_ino stat)))))) of
        Inl e \<Rightarrow> Inl e
      | Inr (zf, path_name, ino) \<Rightarrow>
          (let self = self\<lparr>inode := ino, name := file_path (pathspec self),
                          display_name := Some (path_name @ '':'' @ file_path (pathspec self)),
                          offset := 0\<rparr>
           in case zf (file_path (pathspec self)) of
                None \<Rightarrow> Inl (KeyError (file_path (pathspec self)))
              | Some info \<Rightarrow>
                  (let self = self\<lparr>zipinfo := Some info, size' := file_size info\<rparr>
                   in case zip_open info of
                        Inl (RuntimeError e) \<Rightarrow>
                          Inl (IOError (''Unable to open ZIP file: {'' @ name self @ ''} -> '' @ e))
                      | Inl e \<Rightarrow> Inl e
                      | Inr b \<Rightarrow> Inr (PlasoFile (self\<lparr>fh := Some (new_stream b)\<rparr>) filehandle))))"

text \<open>
  \<open>ZipFile.read\<close>.  The method first moves a line buffer that \<open>readline\<close> left in front
  of the read buffer; \<open>readline\<close> is not part of this model, so there is none.
\<close>

definition ZipFile_read :: "int option \<Rightarrow> handler \<Rightarrow> bytes \<times> handler" where
  "ZipFile_read n self =
     (case fh self of
        None \<Rightarrow> ('''', self)
      | Some f \<Rightarrow>
          (let n = (case n of
                      None \<Rightarrow> min (int (size' self) - offset self) (1024 * 1024 * 24)
                    | Some k \<Rightarrow> k);
               (line, f') = stream_read (Some n) f
           in (line, self\<lparr>fh := Some f', offset := offset self + int (length line)\<rparr>)))"

definition ZipFile_tell :: "handler \<Rightarrow> int" where
  "ZipFile_tell self = (case fh self of None \<Rightarrow> 0 | Some _ \<Rightarrow> offset self)"

definition ZipFile_close :: "handler \<Rightarrow> handler" where
  "ZipFile_close self =
     (case fh self of Some _ \<Rightarrow> self\<lparr>fh := None, offset := 0\<rparr> | None \<Rightarrow> self)"

text \<open>
  The branch \<open>whence == 0\<close> of \<open>ZipFile.seek\<close>, which its other branches reach through
  \<open>self.seek(ofs)\<close>: close, open again on \<open>orig_fh\<close>, read \<open>offset\<close> bytes and drop them.
\<close>

definition ZipFile_seek_start :: "library \<Rightarrow> int \<Rightarrow> PlasoFile \<Rightarrow> error + PlasoFile" where
  "ZipFile_seek_start lib off h =
     (case ZipFile_Open lib (ZipFile_close (attrs h)) (upstream h) of
        Inl e \<Rightarrow> Inl e
      | Inr h' \<Rightarrow> Inr (PlasoFile (snd (ZipFile_read (Some off) (attrs h'))) (upstream h')))"

definition ZipFile_seek :: "library \<Rightarrow> int \<Rightarrow> int \<Rightarrow> PlasoFile \<Rightarrow> error + PlasoFile" where
  "ZipFile_seek lib off whence h =
     (case fh (attrs h) of
        None \<Rightarrow> Inl (RuntimeError ''Unable to seek into a file that is not open.'')
      | Some _ \<Rightarrow>
          if whence = 0 then ZipFile_seek_start lib off h
          else if whence = 1 then
            (if off > 0 then
               Inr (PlasoFile (snd (ZipFile_read (Some off) (attrs h))) (upstream h))
             else ZipFile_seek_start lib (offset (attrs h) + off) h)
          else if whence = 2 then
            (let ofs = int (size' (attrs h)) + off in
             if ofs > offset (attrs h) then
               Inr (PlasoFile (snd (ZipFile_read (Some (ofs - offset (attrs h))) (attrs h)))
                      (upstream h))
             else
               (case ZipFile_seek_start lib 0 h of
                  Inl e \<Rightarrow> Inl e
                | Inr h' \<Rightarrow>
                    Inr (PlasoFile (snd (ZipFile_read (Some ofs) (attrs h'))) (upstream h'))))
          else Inl (RuntimeError (''Illegal whence value '' @ str_int whence)))"

subsection \<open>GzipFile\<close>

definition GzipFile_seek :: "int \<Rightarrow> int \<Rightarrow> handler \<Rightarrow> error + handler" where
  "GzipFile_seek off whence self =
     (case fh self of
        None \<Rightarrow> Inl (RuntimeError ''Unable to seek into a file that is not open.'')
      | Some f \<Rightarrow>
          (case (if whence = 2 then
                   (let ofs = int (size' self) + off in
                    if ofs > PlasoFile_tell self then stream_seek (ofs - int (pos f)) 1 f
                    else stream_seek ofs 0 (f\<lparr>pos := 0\<rparr>))
                 else stream_seek off whence f) of
             Inl e \<Rightarrow> Inl e
           | Inr f' \<Rightarrow> Inr (self\<lparr>fh := Some f'\<rparr>)))"

definition GzipFile_read :: "int \<Rightarrow> handler \<Rightarrow> bytes \<times> handler" where
  "GzipFile_read n self =
     (case fh self of
        Some f \<Rightarrow> (let (line, f') = stream_read (Some n) f in (line, self\<lparr>fh := Some f'\<rparr>))
      | None \<Rightarrow> ('''', self))"

subsection \<open>TarFile\<close>

text \<open>
  \<open>TarFile.read\<close> tests \<open>if size\<close>: a size of \<open>None\<close> and a size of \<open>0\<close> are both
  false.  \<open>TarFile_read_fill\<close> is the part of the method after its first \<open>if\<close>.
\<close>

definition TarFile_read_fill ::
  "library \<Rightarrow> int option \<Rightarrow> handler \<Rightarrow> stream \<Rightarrow> bytes \<times> handler" where
  "TarFile_read_fill lib n self f =
     (let ret = buffer self;
          read_size = (case n of
                         None \<Rightarrow> None
                       | Some k \<Rightarrow> if k \<noteq> 0 then Some (k - int (length ret)) else None);
          (got, f') = ExFileObject_read (over_read lib) read_size f;
          ret = ret @ got;
          self = self\<lparr>buffer := '''', fh := Some f'\<rparr>
      in case n of
           None \<Rightarrow> (ret, self)
         | Some k \<Rightarrow>
             if k \<noteq> 0 \<and> int (length ret) > k
             then (slice_to ret k, self\<lparr>buffer := slice_from ret k\<rparr>)
             else (ret, self))"

definition TarFile_read :: "library \<Rightarrow> int option \<Rightarrow> handler \<Rightarrow> bytes \<times> handler" where
  "TarFile_read lib n self =
     (case fh self of
        None \<Rightarrow> ('''', self)
      | Some f \<Rightarrow>
          (case n of
             None \<Rightarrow> TarFile_read_fill lib n self f
           | Some k \<Rightarrow>
               if k \<noteq> 0 \<and> int (length (buffer self)) \<ge> k
               then (slice_to (buffer self) k, self\<lparr>buffer := slice_from (buffer self) k\<rparr>)
               else TarFile_read_fill lib n self f))"

definition TarFile_seek :: "int \<Rightarrow> int \<Rightarrow> handler \<Rightarrow> error + handler" where
  "TarFile_seek off whence self =
     (case fh self of
        None \<Rightarrow> Inl (RuntimeError ''Unable to seek into a file that is not open.'')
      | Some f \<Rightarrow>
          if whence = 1 then
            (if off > 0 \<and> int (length (buffer self)) > off then
               Inr (self\<lparr>buffer := slice_from (buffer self) off\<rparr>)
             else
               (let ofs = off - int (length (buffer self)) in
                case stream_seek ofs 1 f of
                  Inl e \<Rightarrow> Inl e
                | Inr f' \<Rightarrow> Inr (self\<lparr>buffer := '''', fh := Some f'\<rparr>)))
          else
            (case stream_seek off whence f of
               Inl e \<Rightarrow> Inl e
             | Inr f' \<Rightarrow> Inr (self\<lparr>buffer := '''', fh := Some f'\<rparr>)))"

definition TarFile_tell :: "handler \<Rightarrow> int" where
  "TarFile_tell self =
     (case fh self of None \<Rightarrow> 0 | Some f \<Rightarrow> stream_tell f - int (length (buffer self)))"

subsection \<open>Method calls\<close>

text \<open>
  \<open>h.seek(offset, whence)\<close>, \<open>h.read(size)\<close>, \<open>h.tell()\<close> and \<open>h.close()\<close>: each is the
  method of the object's class, or the one it inherits from \<open>PlasoFile\<close>.  \<open>read\<close>
  without a size is \<open>read None\<close>, which \<open>GzipFile.read\<close> takes as its default \<open>-1\<close>.
\<close>

definition put :: "PlasoFile \<Rightarrow> error + handler \<Rightarrow> error + PlasoFile" where
  "put h r = (case r of Inl e \<Rightarrow> Inl e | Inr self \<Rightarrow> Inr (PlasoFile self (upstream h)))"

definition seek :: "library \<Rightarrow> int \<Rightarrow> int \<Rightarrow> PlasoFile \<Rightarrow> error + PlasoFile" where
  "seek lib off whence h =
     (case class_TYPE (attrs h) of
        ZIP \<Rightarrow> ZipFile_seek lib off whence h
      | GZIP \<Rightarrow> put h (GzipFile_seek off whence (attrs h))
      | TAR \<Rightarrow> put h (TarFile_seek off whence (attrs h))
      | _ \<Rightarrow> put h (PlasoFile_seek off whence (attrs h)))"

definition read :: "library \<Rightarrow> int option \<Rightarrow> PlasoFile \<Rightarrow> bytes \<times> PlasoFile" where
  "read lib n h =
     (let (line, self) =
            (case class_TYPE (attrs h) of
               ZIP \<Rightarrow> ZipFile_read n (attrs h)
             | GZIP \<Rightarrow> GzipFile_read (case n of None \<Rightarrow> - 1 | Some k \<Rightarrow> k) (attrs h)
             | TAR \<Rightarrow> TarFile_read lib n (attrs h)
             | _ \<Rightarrow> PlasoFile_read n (attrs h))
      in (line, PlasoFile self (upstream h)))"

definition tell :: "PlasoFile \<Rightarrow> int" where
  "tell h =
     (case class_TYPE (attrs h) of
        ZIP \<Rightarrow> ZipFile_tell (attrs h)
      | TAR \<Rightarrow> TarFile_tell (attrs h)
      | _ \<Rightarrow> PlasoFile_tell (attrs h))"

definition close :: "PlasoFile \<Rightarrow> PlasoFile" where
  "close h =
     (case class_TYPE (attrs h) of
        ZIP \<Rightarrow> PlasoFile (ZipFile_close (attrs h)) (upstream h)
      | _ \<Rightarrow> PlasoFile (PlasoFile_close (attrs h)) (upstream h))"

subsection \<open>Open\<close>

definition OsFile_Open :: "library \<Rightarrow> handler \<Rightarrow> PlasoFile option \<Rightarrow> error + PlasoFile" where
  "OsFile_Open lib self filehandle =
     (case os_open lib (file_path (pathspec self)) of
        Inl e \<Rightarrow> Inl e
      | Inr b \<Rightarrow>
          (let self = self\<lparr>fh := Some (new_stream b), name := file_path (pathspec self)\<rparr>
           in Inr (PlasoFile
                     (self\<lparr>display_name :=
                              Some (case filehandle of
                                      Some up \<Rightarrow> name (attrs up) @ '':'' @ name self
                                    | None \<Rightarrow> name self)\<rparr>)
                     filehandle)))"

text \<open>
  \<open>self._OpenFileSystem(path, offset)\<close>: \<open>TskFile\<close>'s method, and \<open>VssFile\<close>'s, which
  overrides it.
\<close>

definition TskFile_OpenFileSystem ::
  "library \<Rightarrow> string \<Rightarrow> int \<Rightarrow> handler \<Rightarrow> state \<Rightarrow> (error + handler) \<times> state" where
  "TskFile_OpenFileSystem lib path off self s =
     (case FilesystemCache_Open lib path off (- 1) s of
        (Inl e, s') \<Rightarrow> (Inl e, s')
      | (Inr fs_obj, s') \<Rightarrow> (Inr (self\<lparr>priv_fs := fc_fs fs_obj\<rparr>), s'))"

definition VssFile_OpenFileSystem ::
  "library \<Rightarrow> string \<Rightarrow> int \<Rightarrow> handler \<Rightarrow> state \<Rightarrow> (error + handler) \<times> state" where
  "VssFile_OpenFileSystem lib path off self s =
     (case vss_store_number (pathspec self) of
        None \<Rightarrow>
          (Inl (IOError (''Unable to open VSS file: {'' @ name self
                          @ ''} -> No VSS store number defined.'')), s)
      | Some nr \<Rightarrow>
          (case FilesystemCache_Open lib path off nr s of
             (Inl e, s') \<Rightarrow> (Inl e, s')
           | (Inr fs_obj, s') \<Rightarrow>
               (Inr (self\<lparr>priv_fs_obj := Some fs_obj, priv_fs := fc_fs fs_obj\<rparr>), s')))"

definition OpenFileSystem ::
  "library \<Rightarrow> string \<Rightarrow> int \<Rightarrow> handler \<Rightarrow> state \<Rightarrow> (error + handler) \<times> state" where
  "OpenFileSystem lib path off self s =
     (if class_TYPE self = VSS then VssFile_OpenFileSystem lib path off self s
      else TskFile_OpenFileSystem lib path off self s)"

text \<open>
  \<open>TskFile.Open\<close>.  With a \<open>filehandle\<close> the method passes the handler object itself as
  the path; the cache formats it with \<open>%s\<close>, which is its \<open>__str__\<close>.
\<close>

definition TskFile_Open ::
  "library \<Rightarrow> handler \<Rightarrow> PlasoFile option \<Rightarrow> state \<Rightarrow> (error + PlasoFile) \<times> state" where
  "TskFile_Open lib self filehandle s =
     (let path = (case filehandle of
                    Some up \<Rightarrow> PlasoFile_str (attrs up)
                  | None \<Rightarrow> container_path (pathspec self));
          off = (case image_offset (pathspec self) of Some i \<Rightarrow> i | None \<Rightarrow> 0)
      in case OpenFileSystem lib path off self s of
           (Inl e, s') \<Rightarrow> (Inl e, s')
         | (Inr self, s') \<Rightarrow>
             (let ino = (case image_inode (pathspec self) of Some i \<Rightarrow> i | None \<Rightarrow> 0)
              in case sleuthkit_Open lib (priv_fs self) ino (file_path (pathspec self)) of
                   Inl e \<Rightarrow> (Inl e, s')
                 | Inr file \<Rightarrow>
                     (let dn = container_path (pathspec self) @ '':''
                                 @ file_path (pathspec self);
                          self = self\<lparr>fh := Some (new_stream (tsk_data file)),
                                       meta := tsk_meta file,
                                       name := file_path (pathspec self),
                                       size' := length (tsk_data file)\<rparr>
                      in (Inr (PlasoFile
                                 (self\<lparr>display_name :=
                                          Some (case filehandle of
                                                  Some up \<Rightarrow> name (attrs up) @ '':'' @ dn
                                                | None \<Rightarrow> dn)\<rparr>)
                                 filehandle), s'))))"

text \<open>
  \<open>VssFile.Open\<close>; reading the unset protobuf field \<open>vss_store_number\<close> gives its
  default, \<open>0\<close>.
\<close>

definition VssFile_Open ::
  "library \<Rightarrow> handler \<Rightarrow> PlasoFile option \<Rightarrow> state \<Rightarrow> (error + PlasoFile) \<times> state" where
  "VssFile_Open lib self filehandle s =
     (case TskFile_Open lib self filehandle s of
        (Inl e, s') \<Rightarrow> (Inl e, s')
      | (Inr h, s') \<Rightarrow>
          (Inr (PlasoFile
                  ((attrs h)\<lparr>display_name :=
                      Some (PlasoFile_str (attrs h) @ '':vss_store_''
                            @ str_int (case vss_store_number (pathspec (attrs h)) of
                                         Some nr \<Rightarrow> nr | None \<Rightarrow> 0))\<rparr>)
                  (upstream h)), s'))"

text \<open>
  \<open>GzipFile.Open\<close>.  On a \<open>filehandle\<close> it first calls \<open>filehandle.seek(0)\<close>; the
  library stream then wraps the handler as that call left it.
\<close>

definition GzipFile_Open :: "library \<Rightarrow> handler \<Rightarrow> PlasoFile option \<Rightarrow> error + PlasoFile" where
  "GzipFile_Open lib self filehandle =
     (case (case filehandle of
              Some up \<Rightarrow>
                (case seek lib 0 0 up of
                   Inl e \<Rightarrow> Inl e
                 | Inr up \<Rightarrow>
                     (case Stat_ino lib up of
                        Inl e \<Rightarrow> Inl e
                      | Inr ino \<Rightarrow> Inr (contents up, ino, Some up)))
            | None \<Rightarrow>
                (case os_open lib (file_path (pathspec self)) of
                   Inl e \<Rightarrow> Inl e
                 | Inr raw \<Rightarrow>
                     (case os_stat lib (file_path (pathspec self)) of
                        Inl e \<Rightarrow> Inl e
                      | Inr stat \<Rightarrow> Inr (raw, IntV (st_ino stat), None)))) of
        Inl e \<Rightarrow> Inl e
      | Inr (raw, ino, filehandle) \<Rightarrow>
          (let self = self\<lparr>inode := ino, name := file_path (pathspec self)\<rparr>;
               dn = (case filehandle of
                       Some up \<Rightarrow> name (attrs up) @ ''_uncompressed''
                     | None \<Rightarrow> name self);
               self = self\<lparr>display_name := Some dn\<rparr>
           in case gzip_GzipFile lib raw of
                Inl (IOError e) \<Rightarrow>
                  Inl (IOError (''Not able to open the GZIP file '' @ name self @ '' -> '' @ dn
                                @ '' ['' @ e @ '']''))
              | Inl e \<Rightarrow> Inl e
              | Inr b \<Rightarrow>
                  Inr (PlasoFile
                         (self\<lparr>fh := Some (new_stream b),
                                size' := (case gzip_size lib raw of Some n \<Rightarrow> n | None \<Rightarrow> 0)\<rparr>)
                         filehandle)))"

text \<open>
  \<open>Bz2File.Open\<close>.  On a \<open>filehandle\<close> it calls \<open>filehandle.seek(0)\<close> and passes over a
  \<open>NotImplementedError\<close> of that call.
\<close>

definition Bz2File_Open :: "library \<Rightarrow> handler \<Rightarrow> PlasoFile option \<Rightarrow> error + PlasoFile" where
  "Bz2File_Open lib self filehandle =
     (case filehandle of
        Some up \<Rightarrow>
          (case Stat_ino lib up of
             Inl e \<Rightarrow> Inl e
           | Inr ino \<Rightarrow>
               (case (case seek lib 0 0 up of
                        Inl NotImplementedError \<Rightarrow> Inr up
                      | Inl e \<Rightarrow> Inl e
                      | Inr up' \<Rightarrow> Inr up') of
                  Inl e \<Rightarrow> Inl e
                | Inr up \<Rightarrow>
                    (case bz2_BZ2File lib (contents up) of
                       Inl e \<Rightarrow> Inl e
                     | Inr b \<Rightarrow>
                         Inr (PlasoFile
                                (self\<lparr>inode := ino, fh := Some (new_stream b),
                                       display_name :=
                                         Some (name (attrs up) @ '':''
                                               @ file_path (pathspec self)),
                                       name := file_path (pathspec self)\<rparr>)
                                (Some up)))))
      | None \<Rightarrow>
          (case os_open lib (file_path (pathspec self)) of
             Inl e \<Rightarrow> Inl e
           | Inr raw \<Rightarrow>
               (case bz2_BZ2File lib raw of
                  Inl e \<Rightarrow> Inl e
                | Inr b \<Rightarrow>
                    (case os_stat lib (file_path (pathspec self)) of
                       Inl e \<Rightarrow> Inl e
                     | Inr stat \<Rightarrow>
                         Inr (PlasoFile
                                (self\<lparr>display_name := Some (file_path (pathspec self)),
                                       fh := Some (new_stream b),
                                       inode := IntV (st_ino stat),
                                       name := file_path (pathspec self)\<rparr>)
                                None)))))"

text \<open>
  \<open>TarFile.Open\<close>.  \<open>ft.extractfile(name)\<close> raises \<open>KeyError\<close> for a name the archive
  lacks and returns \<open>None\<close> for a member that is not a regular file.
\<close>

definition TarFile_Open :: "library \<Rightarrow> handler \<Rightarrow> PlasoFile option \<Rightarrow> error + PlasoFile" where
  "TarFile_Open lib self filehandle =
     (case (case filehandle of
              Some up \<Rightarrow>
                (case tarfile_open lib (contents up) of
                   Inl e \<Rightarrow> Inl e
                 | Inr ft \<Rightarrow>
                     (case Stat_ino lib up of
                        Inl e \<Rightarrow> Inl e
                      | Inr ino \<Rightarrow>
                          Inr (ft, name (attrs up) @ '':'' @ file_path (pathspec self), ino)))
            | None \<Rightarrow>
                (case os_open lib (container_path (pathspec self)) of
                   Inl e \<Rightarrow> Inl e
                 | Inr raw \<Rightarrow>
                     (case tarfile_open lib raw of
                        Inl e \<Rightarrow> Inl e
                      | Inr ft \<Rightarrow>
                          (case os_stat lib (container_path (pathspec self)) of
                             Inl e \<Rightarrow> Inl e
                           | Inr stat \<Rightarrow>
                               Inr (ft, container_path (pathspec self) @ '':''
                                        @ file_path (pathspec self),
                                    IntV (st_ino stat)))))) of
        Inl e \<Rightarrow> Inl e
      | Inr (ft, dn, ino) \<Rightarrow>
          (case ft (file_path (pathspec self)) of
             None \<Rightarrow> Inl (KeyError (file_path (pathspec self)))
           | Some None \<Rightarrow>
               Inl (IOError (''[TAR] File '' @ file_path (pathspec self)
                             @ '' empty or unable to open.''))
           | Some (Some b) \<Rightarrow>
               Inr (PlasoFile
                      (self\<lparr>display_name := Some dn, inode := ino,
                             fh := Some (new_stream b), buffer := '''',
                             name := file_path (pathspec self), size' := length b\<rparr>)
                      filehandle)))"

text \<open>
  \<open>handler.Open(filehandle)\<close>: the method of the object's class; the base class raises
  \<open>NotImplementedError\<close>.  Only the volume handlers touch the filesystem cache.
\<close>

definition Open ::
  "library \<Rightarrow> handler \<Rightarrow> PlasoFile option \<Rightarrow> state \<Rightarrow> (error + PlasoFile) \<times> state" where
  "Open lib self filehandle s =
     (case class_TYPE self of
        UNSET \<Rightarrow> (Inl NotImplementedError, s)
      | OS \<Rightarrow> (OsFile_Open lib self filehandle, s)
      | TSK \<Rightarrow> TskFile_Open lib self filehandle s
      | VSS \<Rightarrow> VssFile_Open lib self filehandle s
      | ZIP \<Rightarrow> (ZipFile_Open lib self filehandle, s)
      | GZIP \<Rightarrow> (GzipFile_Open lib self filehandle, s)
      | BZ2 \<Rightarrow> (Bz2File_Open lib self filehandle, s)
      | TAR \<Rightarrow> (TarFile_Open lib self filehandle, s))"

section \<open>The resolver\<close>

text \<open>
  \<open>PFILE_TYPES\<close> maps a type to the name of its enum value, \<open>class_name\<close> is
  \<open>handler.__class__.__name__\<close> of the class registered for a type.
\<close>

definition PFILE_TYPES :: "FileType \<Rightarrow> string" where
  "PFILE_TYPES t =
     (case t of UNSET \<Rightarrow> ''UNSET'' | OS \<Rightarrow> ''OS'' | TSK \<Rightarrow> ''TSK'' | VSS \<Rightarrow> ''VSS''
      | ZIP \<Rightarrow> ''ZIP'' | GZIP \<Rightarrow> ''GZIP'' | BZ2 \<Rightarrow> ''BZ2'' | TAR \<Rightarrow> ''TAR'')"

definition class_name :: "FileType \<Rightarrow> string" where
  "class_name t =
     (case t of UNSET \<Rightarrow> ''PlasoFile'' | OS \<Rightarrow> ''OsFile'' | TSK \<Rightarrow> ''TskFile''
      | VSS \<Rightarrow> ''VssFile'' | ZIP \<Rightarrow> ''ZipFile'' | GZIP \<Rightarrow> ''GzipFile''
      | BZ2 \<Rightarrow> ''Bz2File'' | TAR \<Rightarrow> ''TarFile'')"

text \<open>
  \<open>OpenPFile(spec, fh, orig)\<close>.  \<open>PFILE_HANDLERS\<close> holds the seven handler classes under
  their \<open>TYPE\<close>; for the type \<open>UNSET\<close> the lookup returns its default, the number
  \<open>PathSpec.UNSET\<close>, and calling it raises \<open>TypeError\<close>.  A protobuf message is always
  true, so \<open>if orig\<close> asks whether an \<open>orig\<close> was passed.
\<close>

fun OpenPFile ::
  "library \<Rightarrow> PathSpec \<Rightarrow> PlasoFile option \<Rightarrow> PathSpec option \<Rightarrow> state
   \<Rightarrow> (error + PlasoFile) \<times> state" where
  "OpenPFile lib (PathSpec t fp cp io ii vs nested) filehandle orig s =
     (let spec = PathSpec t fp cp io ii vs nested in
      if t = UNSET then (Inl (TypeError ''object is not callable''), s)
      else
        case PlasoFile_init t spec orig of
          Inl (UnableToOpenFile _) \<Rightarrow>
            (Inl (IOError (''Unable to open the file: '' @ fp @ '' using '' @ PFILE_TYPES t)), s)
        | Inl e \<Rightarrow> (Inl e, s)
        | Inr handler \<Rightarrow>
            (case Open lib handler filehandle s of
               (Inl (IOError e), s') \<Rightarrow>
                 (Inl (IOError (''['' @ class_name t @ ''] Unable to open the file: '' @ fp
                                @ '', error: '' @ e)), s')
             | (Inl e, s') \<Rightarrow> (Inl e, s')
             | (Inr h, s') \<Rightarrow>
                 (case nested of
                    Some nested_spec \<Rightarrow>
                      OpenPFile lib nested_spec (Some h)
                        (Some (case orig of Some orig_proto \<Rightarrow> orig_proto | None \<Rightarrow> spec)) s'
                  | None \<Rightarrow> (Inr h, s'))))"



section \<open>The properties, in the words of the specification\<close>

text \<open>
  The two sides of the seek law: \<open>Seek(k, fromStart)\<close> followed by \<open>Read(n)\<close>, and
  \<open>Read(k + n)\<close> with the first \<open>k\<close> bytes discarded.
\<close>

definition seek_then_read :: "library \<Rightarrow> nat \<Rightarrow> nat \<Rightarrow> PlasoFile \<Rightarrow> error + bytes" where
  "seek_then_read lib k n h =
     (case seek lib (int k) 0 h of
        Inl e \<Rightarrow> Inl e
      | Inr h' \<Rightarrow> Inr (fst (read lib (Some (int n)) h')))"

definition read_then_discard :: "library \<Rightarrow> nat \<Rightarrow> nat \<Rightarrow> PlasoFile \<Rightarrow> bytes" where
  "read_then_discard lib k n h = drop k (fst (read lib (Some (int (k + n))) h))"

text \<open>Reading in two chunks of \<open>a\<close> and \<open>b\<close> bytes: the bytes of both reads.\<close>

definition read_two_chunks :: "library \<Rightarrow> nat \<Rightarrow> nat \<Rightarrow> PlasoFile \<Rightarrow> bytes" where
  "read_two_chunks lib a b h =
     (let (first, h') = read lib (Some (int a)) h
      in first @ fst (read lib (Some (int b)) h'))"

text \<open>
  The invariant of the cache: every cached object was constructed, and two keys never
  share an object.  It holds initially and every \<open>FilesystemCache_Open\<close> keeps it.
\<close>

definition cache_ok :: "state \<Rightarrow> bool" where
  "cache_ok s =
     ((\<forall>k c. cached_filesystems s k = Some c \<longrightarrow> object_id c < constructed s) \<and>
      (\<forall>k k' c c'. cached_filesystems s k = Some c \<longrightarrow> cached_filesystems s k' = Some c' \<longrightarrow>
          object_id c = object_id c' \<longrightarrow> k = k'))"

text \<open>
  The logical read position of an open tar handler: the bytes in \<open>buffer\<close> are the
  bytes of the member just before the position of the library stream.
\<close>

definition tar_at :: "handler \<Rightarrow> bytes \<Rightarrow> nat \<Rightarrow> bool" where
  "tar_at self d q =
     (case fh self of
        None \<Rightarrow> False
      | Some f \<Rightarrow> data f = d \<and> pos f = q + length (buffer self) \<and>
                  buffer self = take (length (buffer self)) (drop q d))"

text \<open>The value of a decimal numeral, to read \<open>str_nat\<close> back.\<close>

definition val_digit :: "char \<Rightarrow> nat" where
  "val_digit c = of_char c - 48"

definition val :: "string \<Rightarrow> nat" where
  "val s = foldl (\<lambda>a c. 10 * a + val_digit c) 0 s"


section \<open>An example environment\<close>

text \<open>
  A library with one disk image (\<open>image.dd\<close>, two shadow stores), the host files
  \<open>a.tar\<close> and \<open>a.zip\<close>, and toy codecs: a GZIP stream is \<open>gz:\<close> followed by its
  content, a BZIP2 stream \<open>bz:\<close> followed by its content.  Every tar member read
  returns three bytes more than asked for.
\<close>

definition example_library :: library where
  "example_library =
     \<lparr>Img_Info = (\<lambda>p. if p = ''image.dd'' then Inr 1 else Inl (IOError ''No such file'')),
      FS_Info = (\<lambda>i off. if off = 0 then Inr (i + 1) else Inl (IOError ''No filesystem'')),
      VShadowVolume =
        (\<lambda>p off. if p = ''image.dd'' then Inr 7 else Inl (IOError ''No such file'')),
      get_store =
        (\<lambda>v nr. if nr = 0 \<or> nr = 1 then Inr (10 + nat nr) else Inl (IOError ''No such store'')),
      VShadowImgInfo = (\<lambda>st. Inr (20 + st)),
      sleuthkit_Open =
        (\<lambda>f i p. if p = ''/logs/sys.tgz''
                  then Inr \<lparr>tsk_data = ''gz:tar1'',
                            tsk_meta = Some [''mode'' \<mapsto> 420, ''addr'' \<mapsto> 12]\<rparr>
                  else Inl (IOError ''No such file'')),
      ftype = (\<lambda>f. ''TSK_FS_TYPE_EXT2''),
      os_open = (\<lambda>p. if p = ''a.tar'' then Inr ''tar2''
                      else if p = ''a.zip'' then Inr ''zip1''
                      else Inl (IOError ''No such file'')),
      os_stat =
        (\<lambda>p. if p = ''a.tar'' \<or> p = ''a.zip''
              then Inr \<lparr>st_mode = 420, st_ino = 5, st_dev = 1, st_nlink = 1, st_uid = 0,
                        st_gid = 0, st_size = 4, st_atime = 0, st_mtime = 0, st_ctime = 0\<rparr>
              else Inl (OSError ''No such file'')),
      zipfile_ZipFile =
        (\<lambda>raw. if raw = ''zip1''
                then Inr [''m.txt'' \<mapsto>
                            \<lparr>file_size = 5, date_time = 0, zip_open = Inr ''hello''\<rparr>]
                else Inl (OtherError ''BadZipfile'')),
      gzip_GzipFile = (\<lambda>raw. if take 3 raw = ''gz:'' then Inr (drop 3 raw)
                             else Inl (IOError ''Not a gzipped file'')),
      gzip_size = (\<lambda>raw. Some (length raw - 3)),
      bz2_BZ2File = (\<lambda>raw. if take 3 raw = ''bz:'' then Inr (drop 3 raw)
                           else Inl (IOError ''invalid data stream'')),
      tarfile_open =
        (\<lambda>raw. if raw = ''tar1'' then Inr [''syslog.gz'' \<mapsto> Some ''gz:a log line'']
                else if raw = ''tar2''
                then Inr [''ab'' \<mapsto> Some ''ab'', ''syslog'' \<mapsto> Some ''0123456789abcdefghij'',
                          ''log.gz'' \<mapsto> Some ''gz:a log line'',
                          ''log.bz2'' \<mapsto> Some ''bz:a log line'', ''dir'' \<mapsto> None]
                else Inl (OtherError ''ReadError'')),
      over_read = (\<lambda>p n. 3),
      Timetuple2Timestamp = (\<lambda>t. t)\<rparr>"

definition spec_tar :: "string \<Rightarrow> PathSpec" where
  "spec_tar member = PathSpec TAR member ''a.tar'' None None None None"

definition spec_zip :: "string \<Rightarrow> PathSpec" where
  "spec_zip member = PathSpec ZIP member ''a.zip'' None None None None"

text \<open>The chain of the docstring of \<open>OpenPFile\<close>: TSK, GZIP, TAR, GZIP.\<close>

definition example_chain :: PathSpec where
  "example_chain =
     PathSpec TSK ''/logs/sys.tgz'' ''image.dd'' (Some 0) (Some 12) None
       (Some (PathSpec GZIP ''/logs/sys.tgz'' '''' None None None
          (Some (PathSpec TAR ''syslog.gz'' ''/logs/sys.tgz'' None None None
             (Some (PathSpec GZIP ''syslog.gz'' '''' None None None None))))))"

text \<open>A snapshot descriptor without a store number.\<close>

definition spec_vss :: PathSpec where
  "spec_vss = PathSpec VSS ''/logs/sys.tgz'' ''image.dd'' (Some 0) (Some 12) None None"

section \<open>The cache key\<close>

text \<open>
  \<open>%d\<close> is injective, so two keys with the same path and offset are equal only for
  the same store number.
\<close>

lemma of_char_digit: "d < 10 \<Longrightarrow> of_char (digit d) = (48 + d :: nat)"
  by (simp add: digit_def)


lemma val_str_nat: "val (str_nat n) = n"
proof (induction n rule: str_nat.induct)
  case (1 n)
  show ?case
  proof (cases "n < 10")
    case True
    then show ?thesis by (simp add: str_nat.simps[of n] val_def val_digit_def of_char_digit)
  next
    case False
    with 1 have "val (str_nat (n div 10)) = n div 10" by simp
    with False show ?thesis
      by (simp add: str_nat.simps[of n] val_def val_digit_def of_char_digit)
  qed
qed

lemma str_nat_inj: "str_nat m = str_nat n \<Longrightarrow> m = n"
  by (metis val_str_nat)

lemma str_nat_hd: "\<exists>d cs. d < 10 \<and> str_nat n = digit d # cs"
proof (induction n rule: str_nat.induct)
  case (1 n)
  show ?case
  proof (cases "n < 10")
    case True
    then show ?thesis by (auto simp add: str_nat.simps[of n])
  next
    case False
    with 1 obtain d cs where "d < 10" "str_nat (n div 10) = digit d # cs" by blast
    with False show ?thesis by (auto simp add: str_nat.simps[of n])
  qed
qed

lemma digit_not_minus: "d < 10 \<Longrightarrow> digit d \<noteq> CHR ''-''"
proof
  assume "d < 10" "digit d = CHR ''-''"
  then have "(of_char (digit d) :: nat) = of_char CHR ''-''" by simp
  with \<open>d < 10\<close> show False by (simp add: of_char_digit)
qed

lemma str_nat_not_minus: "str_nat n \<noteq> CHR ''-'' # cs"
proof
  assume "str_nat n = CHR ''-'' # cs"
  moreover obtain d ds where "d < 10" "str_nat n = digit d # ds" using str_nat_hd[of n] by blast
  ultimately have "d < 10" "digit d = CHR ''-''" by simp_all
  then show False using digit_not_minus by blast
qed

lemma str_int_inj: "str_int i = str_int j \<Longrightarrow> i = j"
proof -
  assume eq: "str_int i = str_int j"
  show ?thesis
  proof (cases "i < 0")
    case True
    show ?thesis
    proof (cases "j < 0")
      case j: True
      with True eq have "str_nat (nat (- i)) = str_nat (nat (- j))" by (simp add: str_int_def)
      then have "nat (- i) = nat (- j)" by (rule str_nat_inj)
      with True j show ?thesis by simp
    next
      case False
      with True eq have "str_nat (nat j) = CHR ''-'' # str_nat (nat (- i))" by (simp add: str_int_def)
      then show ?thesis using str_nat_not_minus by blast
    qed
  next
    case False
    show ?thesis
    proof (cases "j < 0")
      case True
      with False eq have "str_nat (nat i) = CHR ''-'' # str_nat (nat (- j))" by (simp add: str_int_def)
      then show ?thesis using str_nat_not_minus by blast
    next
      case j: False
      with False eq have "str_nat (nat i) = str_nat (nat j)" by (simp add: str_int_def)
      then have "nat i = nat j" by (rule str_nat_inj)
      with False j show ?thesis by simp
    qed
  qed
qed

lemma fs_hash_store_inj: "fs_hash p off n = fs_hash p off m \<Longrightarrow> n = m"
  by (auto simp: fs_hash_def dest: str_int_inj)

lemma cache_ok_initial: "cache_ok initial_state"
  by (simp add: cache_ok_def initial_state_def)

lemma OpenTskImage_Inr:
  "OpenTskImage lib p off s = (Inr c, s') \<Longrightarrow>
     object_id c = constructed s \<and> constructed s' = Suc (constructed s) \<and>
     cached_filesystems s' = cached_filesystems s"
  by (auto simp: OpenTskImage_def called_def Let_def split: sum.splits)



lemma OpenVssImage_Inr:
  "OpenVssImage lib p nr off s = (Inr c, s') \<Longrightarrow>
     object_id c = constructed s \<and> constructed s' = Suc (constructed s) \<and>
     cached_filesystems s' = cached_filesystems s"
  by (auto simp: OpenVssImage_def called_def Let_def split: sum.splits)



lemma open_image_Inr:
  "(if 0 \<le> nr then OpenVssImage lib p nr off s else OpenTskImage lib p off s) = (Inr c, s') \<Longrightarrow>
     object_id c = constructed s \<and> constructed s' = Suc (constructed s) \<and>
     cached_filesystems s' = cached_filesystems s"
  using OpenVssImage_Inr OpenTskImage_Inr by (metis (full_types))


lemma FilesystemCache_Open_cases:
  assumes "FilesystemCache_Open lib p off nr s = (Inr c, s')"
  shows "(cached_filesystems s (fs_hash p off nr) = Some c \<and> s' = s) \<or>
         (cached_filesystems s (fs_hash p off nr) = None \<and> object_id c = constructed s \<and>
          constructed s' = Suc (constructed s) \<and>
          cached_filesystems s' = (cached_filesystems s)(fs_hash p off nr \<mapsto> c))"
proof (cases "cached_filesystems s (fs_hash p off nr)")
  case (Some a)
  with assms show ?thesis by (simp add: FilesystemCache_Open_def)
next
  case None
  obtain r t where rt: "(if 0 \<le> nr then OpenVssImage lib p nr off s else OpenTskImage lib p off s) = (r, t)"
    by (cases "(if 0 \<le> nr then OpenVssImage lib p nr off s else OpenTskImage lib p off s)") auto
  with assms None obtain r: "r = Inr c" and s': "s' = t\<lparr>cached_filesystems := (cached_filesystems t)(fs_hash p off nr \<mapsto> c)\<rparr>"
    by (auto simp: FilesystemCache_Open_def split: sum.splits)
  from open_image_Inr[OF rt[unfolded r]] None s' show ?thesis by simp
qed

lemma FilesystemCache_Open_cached:
  "FilesystemCache_Open lib p off nr s = (Inr c, s') \<Longrightarrow> cached_filesystems s' (fs_hash p off nr) = Some c"
  by (drule FilesystemCache_Open_cases) auto

lemma FilesystemCache_Open_preserves_ok:
  assumes ok: "cache_ok s" and op: "FilesystemCache_Open lib p off nr s = (Inr c, s')"
  shows "cache_ok s'"
proof -
  from FilesystemCache_Open_cases[OF op] show ?thesis
  proof (elim disjE conjE)
    assume "s' = s"
    with ok show ?thesis by simp
  next
    assume none: "cached_filesystems s (fs_hash p off nr) = None"
      and id: "object_id c = constructed s"
      and n: "constructed s' = Suc (constructed s)"
      and m: "cached_filesystems s' = (cached_filesystems s)(fs_hash p off nr \<mapsto> c)"
    from ok have lt: "\<And>k d. cached_filesystems s k = Some d \<Longrightarrow> object_id d < constructed s"
      and inj: "\<And>k k' d d'. cached_filesystems s k = Some d \<Longrightarrow> cached_filesystems s k' = Some d'
                 \<Longrightarrow> object_id d = object_id d' \<Longrightarrow> k = k'"
      unfolding cache_ok_def by blast+
    show ?thesis
      unfolding cache_ok_def
    proof (intro conjI allI impI)
      fix k d assume "cached_filesystems s' k = Some d"
      then show "object_id d < constructed s'"
        using lt[of k d] id n m by (cases "k = fs_hash p off nr") (auto simp: less_Suc_eq)
    next
      fix k k' d d'
      assume a: "cached_filesystems s' k = Some d" "cached_filesystems s' k' = Some d'"
        "object_id d = object_id d'"
      show "k = k'"
      proof (cases "k = fs_hash p off nr")
        case True
        show ?thesis
        proof (cases "k' = fs_hash p off nr")
          case k': True
          with True show ?thesis by simp
        next
          case False
          with a m True have "d = c" "cached_filesystems s k' = Some d'" by auto
          with lt[of k' d'] id a(3) show ?thesis by simp
        qed
      next
        case False
        show ?thesis
        proof (cases "k' = fs_hash p off nr")
          case True
          with a m False have "d' = c" "cached_filesystems s k = Some d" by auto
          with lt[of k d] id a(3) show ?thesis by simp
        next
          case k': False
          with a m False show ?thesis using inj[of k d k' d'] by auto
        qed
      qed
    qed
  qed
qed

text \<open>
  C2.  After \<open>FilesystemCache.Open\<close> has returned a container for a key (path, offset,
  store number), a second call with the same key returns the very same object and
  leaves the state as it is, whatever the libraries would answer; a call that differs
  only in the store number returns an object with another identity.
\<close>

theorem cache_same_key_same_object:
  assumes ok: "cache_ok s"
    and op: "FilesystemCache_Open lib p off nr s = (Inr c, s1)"
  shows "FilesystemCache_Open lib' p off nr s1 = (Inr c, s1) \<and>
         (\<forall>nr' c' s2. nr' \<noteq> nr \<longrightarrow> FilesystemCache_Open lib' p off nr' s1 = (Inr c', s2)
            \<longrightarrow> object_id c' \<noteq> object_id c)"
proof (intro conjI allI impI)
  from FilesystemCache_Open_cached[OF op] show "FilesystemCache_Open lib' p off nr s1 = (Inr c, s1)"
    by (simp add: FilesystemCache_Open_def)
next
  fix nr' c' s2
  assume ne: "nr' \<noteq> nr" and op': "FilesystemCache_Open lib' p off nr' s1 = (Inr c', s2)"
  have ok1: "cache_ok s1" using FilesystemCache_Open_preserves_ok[OF ok op] .
  have c: "cached_filesystems s1 (fs_hash p off nr) = Some c" using FilesystemCache_Open_cached[OF op] .
  have keys: "fs_hash p off nr' \<noteq> fs_hash p off nr" using ne fs_hash_store_inj by blast
  from FilesystemCache_Open_cases[OF op'] show "object_id c' \<noteq> object_id c"
  proof (elim disjE conjE)
    assume "cached_filesystems s1 (fs_hash p off nr') = Some c'"
    with ok1 c keys show ?thesis unfolding cache_ok_def by blast
  next
    assume "object_id c' = constructed s1"
    moreover from ok1 c have "object_id c < constructed s1" unfolding cache_ok_def by blast
    ultimately show ?thesis by simp
  qed
qed




section \<open>Unfolding the model on the example\<close>

lemmas example_defs =
  example_library_def spec_tar_def spec_zip_def example_chain_def spec_vss_def initial_state_def

lemmas cache_defs =
  FilesystemCache_Open_def OpenTskImage_def OpenVssImage_def called_def fs_hash_def str_int_def

lemmas eval_defs =
  PlasoFile_init_def Open_def OsFile_Open_def TarFile_Open_def ZipFile_Open_def GzipFile_Open_def
  Bz2File_Open_def TskFile_Open_def VssFile_Open_def OpenFileSystem_def
  TskFile_OpenFileSystem_def VssFile_OpenFileSystem_def new_stream_def contents_def
  Stat_ino_def Stat_def TskFile_Stat_def OsFile_Stat_def GzipFile_Stat_def Bz2File_Stat_def
  TarFile_Stat_def ZipFile_Stat_def Stats_new_def Stats_setattr_def Stats_getattr_def
  getattr_default_def Stats_names_def seek_def put_def PlasoFile_seek_def stream_seek_def
  GzipFile_seek_def TarFile_seek_def ZipFile_seek_def ZipFile_seek_start_def ZipFile_close_def
  read_def TarFile_read_def TarFile_read_fill_def ExFileObject_read_def slice_to_def
  slice_from_def PlasoFile_read_def GzipFile_read_def ZipFile_read_def stream_read_def tell_def
  TarFile_tell_def ZipFile_tell_def PlasoFile_tell_def stream_tell_def class_name_def
  PFILE_TYPES_def PlasoFile_str_def Let_def

theorem cache_same_key_same_object_witness:
  "\<exists>c s1 c' s2.
     FilesystemCache_Open example_library ''image.dd'' 0 0 initial_state = (Inr c, s1) \<and>
     FilesystemCache_Open example_library ''image.dd'' 0 0 s1 = (Inr c, s1) \<and>
     FilesystemCache_Open example_library ''image.dd'' 0 1 s1 = (Inr c', s2) \<and>
     object_id c' \<noteq> object_id c"
proof -
  define r1 where "r1 = FilesystemCache_Open example_library ''image.dd'' 0 0 initial_state"
  define r3 where "r3 = FilesystemCache_Open example_library ''image.dd'' 0 1 (snd r1)"
  have e1: "FilesystemCache_Open example_library ''image.dd'' 0 0 initial_state
              = (Inr (projr (fst r1)), snd r1)"
    unfolding r1_def by (simp add: example_defs cache_defs str_nat.simps)
  have e3: "FilesystemCache_Open example_library ''image.dd'' 0 1 (snd r1)
              = (Inr (projr (fst r3)), snd r3)"
    unfolding r3_def r1_def by (simp add: example_defs cache_defs str_nat.simps)
  note t = cache_same_key_same_object [OF cache_ok_initial e1, of example_library]
  from t have a: "FilesystemCache_Open example_library ''image.dd'' 0 0 (snd r1)
          = (Inr (projr (fst r1)), snd r1)"
    by (rule conjunct1)
  from t have "(1::int) \<noteq> 0 \<longrightarrow>
      FilesystemCache_Open example_library ''image.dd'' 0 1 (snd r1)
        = (Inr (projr (fst r3)), snd r3)
      \<longrightarrow> object_id (projr (fst r3)) \<noteq> object_id (projr (fst r1))"
    by blast
  with e3 have b: "object_id (projr (fst r3)) \<noteq> object_id (projr (fst r1))"
    by simp
  from e1 a e3 b show ?thesis by blast
qed


text \<open>
  C3.  A \<open>VssFile\<close> whose descriptor has no \<open>vss_store_number\<close> fails to open with an
  \<open>IOError\<close>, and the state is the one before the call: no entry of the cache was read
  or written and no volume library was called.  The resolver reports the same failure,
  with the same state.
\<close>

theorem vss_without_store_number:
  "(class_TYPE self = VSS \<longrightarrow> vss_store_number (pathspec self) = None \<longrightarrow>
      Open lib self filehandle s =
        (Inl (IOError (''Unable to open VSS file: {'' @ name self
                        @ ''} -> No VSS store number defined.'')), s)) \<and>
   OpenPFile lib (PathSpec VSS fp cp io ii None nested) filehandle orig s =
     (Inl (IOError (''[VssFile] Unable to open the file: '' @ fp
                    @ '', error: Unable to open VSS file: {} -> No VSS store number defined.'')),
      s)"
  by (simp add: Open_def VssFile_Open_def TskFile_Open_def OpenFileSystem_def
        VssFile_OpenFileSystem_def PlasoFile_init_def class_name_def Let_def)

theorem vss_without_store_number_witness:
  "OpenPFile example_library spec_vss None None initial_state =
     (Inl (IOError (''[VssFile] Unable to open the file: /logs/sys.tgz''
                    @ '', error: Unable to open VSS file: {} -> No VSS store number defined.'')),
      initial_state) \<and>
   (\<exists>self. PlasoFile_init VSS spec_vss None = Inr self \<and>
      Open example_library self None initial_state =
        (Inl (IOError ''Unable to open VSS file: {} -> No VSS store number defined.''),
         initial_state))"
proof -
  define self where "self = projr (PlasoFile_init VSS spec_vss None)"
  have i: "PlasoFile_init VSS spec_vss None = Inr self"
    and c: "class_TYPE self = VSS" and v: "vss_store_number (pathspec self) = None"
    and n: "name self = ''''"
    unfolding self_def by (simp_all add: PlasoFile_init_def spec_vss_def)
  from vss_without_store_number [of self example_library None initial_state
         "''/logs/sys.tgz''" "''image.dd''" "Some 0" "Some 12" None None] c v n i
  show ?thesis by (auto simp: spec_vss_def)
qed

text \<open>
  C7.  On a handler whose \<open>fh\<close> is unset, \<open>seek\<close> raises \<open>RuntimeError\<close> (not an
  \<open>IOError\<close>), \<open>read\<close> returns the empty string and \<open>tell\<close> returns 0, whatever the
  class of the handler; the handler is left as it was.  \<open>fh\<close> is unset on a handler that
  \<open>__init__\<close> has just made and on one that was closed.
\<close>

theorem closed_handler:
  "(fh (attrs h) = None \<longrightarrow>
      seek lib off whence h = Inl (RuntimeError ''Unable to seek into a file that is not open.'')
      \<and> read lib n h = ('''', h) \<and> tell h = 0) \<and>
   fh (attrs (close h)) = None \<and>
   (PlasoFile_init cls proto root = Inr self \<longrightarrow> fh self = None)"
proof (intro conjI impI)
  assume "fh (attrs h) = None"
  then show "seek lib off whence h
               = Inl (RuntimeError ''Unable to seek into a file that is not open.'')"
    by (simp add: seek_def put_def ZipFile_seek_def GzipFile_seek_def TarFile_seek_def
          PlasoFile_seek_def split: FileType.split)
next
  assume "fh (attrs h) = None"
  then show "read lib n h = ('''', h)"
    by (simp add: read_def ZipFile_read_def GzipFile_read_def TarFile_read_def
          PlasoFile_read_def split: FileType.split)
next
  assume "fh (attrs h) = None"
  then show "tell h = 0"
    by (simp add: tell_def ZipFile_tell_def TarFile_tell_def PlasoFile_tell_def
          split: FileType.split)
next
  show "fh (attrs (close h)) = None"
    by (simp add: close_def ZipFile_close_def PlasoFile_close_def
          split: FileType.split option.split)
next
  assume "PlasoFile_init cls proto root = Inr self"
  then show "fh self = None"
    by (auto simp: PlasoFile_init_def split: if_splits)
qed

theorem closed_handler_witness:
  "\<exists>h s. OpenPFile example_library (spec_tar ''ab'') None None initial_state = (Inr h, s) \<and>
     fh (attrs h) \<noteq> None \<and> fh (attrs (close h)) = None \<and>
     seek example_library 1 0 (close h)
       = Inl (RuntimeError ''Unable to seek into a file that is not open.'') \<and>
     read example_library (Some 1) (close h) = ('''', close h) \<and>
     tell (close h) = 0"
proof -
  define h where
    "h = projr (fst (OpenPFile example_library (spec_tar ''ab'') None None initial_state))"
  have o: "OpenPFile example_library (spec_tar ''ab'') None None initial_state
             = (Inr h, initial_state)"
    and f: "fh (attrs h) \<noteq> None"
    unfolding h_def
    by (simp_all add: example_defs PlasoFile_init_def Open_def TarFile_Open_def new_stream_def
          Let_def)
  note t = closed_handler [where h = "close h" and lib = example_library and off = 1
                             and whence = 0 and n = "Some 1"]
  have c: "fh (attrs (close h)) = None"
    by (simp add: close_def ZipFile_close_def PlasoFile_close_def
          split: FileType.split option.split)
  from t c have "seek example_library 1 0 (close h)
       = Inl (RuntimeError ''Unable to seek into a file that is not open.'') \<and>
     read example_library (Some 1) (close h) = ('''', close h) \<and>
     tell (close h) = 0"
    by blast
  with c
    o f show ?thesis by blast
qed

text \<open>
  C8.  Reading a field of a \<open>Stats\<close> object that was never set, and that is no
  attribute of the object itself, raises \<open>AttributeError\<close>; once the field is set to
  zero the same read returns zero.
\<close>

theorem stats_unset_field:
  "object_attributes ret attr = None \<longrightarrow>
     (attributes ret attr = None \<longrightarrow>
        Stats_getattr ret attr = Inl (AttributeError ''Attribute not defined'')) \<and>
     Stats_getattr (Stats_setattr ret attr (IntV 0)) attr = Inr (IntV 0)"
  by (simp add: Stats_getattr_def Stats_setattr_def)

theorem stats_unset_field_witness:
  "Stats_getattr Stats_new ''size'' = Inl (AttributeError ''Attribute not defined'') \<and>
   Stats_getattr (Stats_setattr Stats_new ''size'' (IntV 0)) ''size'' = Inr (IntV 0)"
proof -
  have o: "object_attributes Stats_new ''size'' = None"
    and a: "attributes Stats_new ''size'' = None"
    by (simp_all add: Stats_new_def Stats_names_def)
  from stats_unset_field [of Stats_new "''size''"] o a show ?thesis by blast
qed

section \<open>What the methods keep\<close>

text \<open>
  No method changes the class of a handler, its descriptor or its root descriptor;
  \<open>Open\<close> and \<open>seek\<close> of a \<open>ZipFile\<close> keep the handler it was opened on.
\<close>

lemma ZipFile_read_keeps:
  "class_TYPE (snd (ZipFile_read n self)) = class_TYPE self \<and>
   pathspec (snd (ZipFile_read n self)) = pathspec self \<and>
   pathspec_root (snd (ZipFile_read n self)) = pathspec_root self"
  by (simp add: ZipFile_read_def Let_def split: option.split prod.split)

lemma ZipFile_close_keeps:
  "class_TYPE (ZipFile_close self) = class_TYPE self \<and>
   pathspec (ZipFile_close self) = pathspec self \<and>
   pathspec_root (ZipFile_close self) = pathspec_root self"
  by (simp add: ZipFile_close_def split: option.split)

lemma ZipFile_Open_Inr:
  assumes "ZipFile_Open lib self filehandle = Inr h"
  shows "upstream h = filehandle \<and> class_TYPE (attrs h) = class_TYPE self \<and>
         pathspec (attrs h) = pathspec self \<and> pathspec_root (attrs h) = pathspec_root self \<and>
         offset (attrs h) = 0 \<and> (\<exists>b. fh (attrs h) = Some (new_stream b))"
  using assms unfolding ZipFile_Open_def Let_def
  by (auto split: sum.splits option.splits prod.splits error.splits)





lemma TarFile_seek_Inr:
  "TarFile_seek off whence self = Inr self' \<Longrightarrow>
     class_TYPE self' = class_TYPE self \<and> pathspec self' = pathspec self \<and>
     pathspec_root self' = pathspec_root self"
  by (auto simp: TarFile_seek_def Let_def split: option.splits sum.splits if_splits)



section \<open>Seeking to the start\<close>




section \<open>What Open does to the handler it is given\<close>






section \<open>The chain of a resolved descriptor\<close>














section \<open>Reading a tar member\<close>

text \<open>
  A read of a positive size returns the next bytes of the member, whatever the library
  read beyond them, and leaves the surplus in \<open>buffer\<close>.
\<close>

lemma take_length_take: "take (length (take k zs)) zs = take k zs"
  by (simp add: min_def)

lemma tar_atI:
  assumes "fh self = Some f" "data f = d" "buffer self = take k (drop q d)"
    "pos f = q + length (buffer self)"
  shows "tar_at self d q"
  using assms take_length_take [of k "drop q d"] by (simp add: tar_at_def)

lemma tar_atD:
  assumes "tar_at self d q"
  obtains f where "fh self = Some f" "data f = d" "pos f = q + length (buffer self)"
    "buffer self = take (length (buffer self)) (drop q d)"
  using assms by (auto simp: tar_at_def split: option.splits)

lemma TarFile_read_fill_positive:
  assumes f: "fh self = Some f" and d: "data f = d" and p: "pos f = q + length (buffer self)"
    and b: "buffer self = take (length (buffer self)) (drop q d)"
    and n: "0 < n" and short: "length (buffer self) < n"
  shows "fst (TarFile_read_fill lib (Some (int n)) self f) = take n (drop q d) \<and>
         tar_at (snd (TarFile_read_fill lib (Some (int n)) self f)) d
           (q + length (take n (drop q d)))"
proof -
  define B where "B = buffer self"
  define X where "X = drop q d"
  define e where "e = over_read lib (pos f) (n - length B)"
  define got where "got = take (n - length B + e) (drop (pos f) (data f))"
  define f' where "f' = f\<lparr>pos := pos f + length got\<rparr>"
  define R where "R = B @ got"
  have BX: "B = take (length B) X" using b by (simp add: B_def X_def)
  have "drop (pos f) (data f) = drop (length B) X"
    using d p by (simp add: B_def X_def add.commute)
  then have "got = take (n - length B + e) (drop (length B) X)" by (simp add: got_def)
  with BX have "R = take (length B) X @ take (n - length B + e) (drop (length B) X)"
    by (simp add: R_def)
  then have "R = take (length B + (n - length B + e)) X" by (simp add: take_add)
  moreover have "length B + (n - length B + e) = n + e" using short by (simp add: B_def)
  ultimately have R: "R = take (n + e) X" by simp
  have ex: "ExFileObject_read (over_read lib) (Some (int n - int (length (buffer self)))) f
              = (got, f')"
    using short
    by (simp add: ExFileObject_read_def Let_def got_def f'_def e_def B_def nat_diff_distrib)
  have unfold: "TarFile_read_fill lib (Some (int n)) self f =
      (if n < length R
       then (take n R, self\<lparr>buffer := drop n R, fh := Some f'\<rparr>)
       else (R, self\<lparr>buffer := '''', fh := Some f'\<rparr>))"
    using n ex
    by (simp add: TarFile_read_fill_def Let_def slice_to_def slice_from_def R_def B_def)
  have pf: "pos f' = q + length R" and df: "data f' = d"
    using p d by (simp_all add: f'_def R_def B_def)
  show ?thesis
  proof (cases "n < length R")
    case True
    with R have lx: "n < length X" by simp
    have 1: "take n R = take n X" using R by (simp add: min_def)
    have 2: "drop n R = take e (drop (q + n) d)"
      using R by (simp add: drop_take X_def add.commute)
    have 3: "length (take n X) = n" using lx by simp
    have "tar_at (self\<lparr>buffer := drop n R, fh := Some f'\<rparr>) d (q + n)"
    proof (rule tar_atI [where f = f' and k = e])
      show "pos f' = q + n + length (buffer (self\<lparr>buffer := drop n R, fh := Some f'\<rparr>))"
        using pf True by simp
    qed (simp_all add: df 2)
    with True unfold 1 3 show ?thesis by (simp add: X_def)
  next
    case False
    then have 1: "R = take n X" using R by (auto simp: min_def split: if_splits)
    have "tar_at (self\<lparr>buffer := '''', fh := Some f'\<rparr>) d (q + length R)"
      by (rule tar_atI [where f = f' and k = 0]) (simp_all add: df pf)
    with False unfold 1 show ?thesis by (simp add: X_def)
  qed
qed

lemma TarFile_read_positive:
  assumes at: "tar_at self d q" and n: "0 < n"
  shows "fst (TarFile_read lib (Some (int n)) self) = take n (drop q d) \<and>
         tar_at (snd (TarFile_read lib (Some (int n)) self)) d (q + length (take n (drop q d)))"
proof -
  from at obtain f where f: "fh self = Some f" and d: "data f = d"
    and p: "pos f = q + length (buffer self)"
    and b: "buffer self = take (length (buffer self)) (drop q d)"
    by (rule tar_atD)
  define B where "B = buffer self"
  define X where "X = drop q d"
  have BX: "B = take (length B) X" using b by (simp add: B_def X_def)
  show ?thesis
  proof (cases "n \<le> length B")
    case True
    have unfold: "TarFile_read lib (Some (int n)) self = (take n B, self\<lparr>buffer := drop n B\<rparr>)"
      using True n f by (simp add: TarFile_read_def slice_to_def slice_from_def B_def)
    have "take n B = take n (take (length B) X)" using BX by simp
    then have 1: "take n B = take n X" using True by (simp add: min_def)
    have "length B \<le> length X" using BX by (metis length_take min.cobounded1)
    with True have 3: "length (take n X) = n" by simp
    have "drop n B = drop n (take (length B) X)" using BX by simp
    then have 2: "drop n B = take (length B - n) (drop (q + n) d)"
      by (simp add: drop_take X_def add.commute)
    have "tar_at (self\<lparr>buffer := drop n B\<rparr>) d (q + n)"
    proof (rule tar_atI [where f = f and k = "length B - n"])
      show "pos f = q + n + length (buffer (self\<lparr>buffer := drop n B\<rparr>))"
        using p True by (simp add: B_def)
    qed (simp_all add: f d 2)
    with unfold 1 3 show ?thesis by (simp add: X_def)
  next
    case False
    then have short: "length (buffer self) < n" by (simp add: B_def)
    have "TarFile_read lib (Some (int n)) self = TarFile_read_fill lib (Some (int n)) self f"
      using short n f by (simp add: TarFile_read_def)
    with TarFile_read_fill_positive [OF f d p b n short, of lib] show ?thesis by simp
  qed
qed

lemma TarFile_Open_fresh:
  assumes "TarFile_Open lib self filehandle = Inr h"
  shows "class_TYPE (attrs h) = class_TYPE self \<and> tar_at (attrs h) (contents h) 0 \<and>
         (\<exists>f. fh (attrs h) = Some f \<and> seekable f)"
  using assms unfolding TarFile_Open_def Let_def
  by (auto simp: tar_at_def contents_def new_stream_def
        split: sum.splits option.splits prod.splits)

lemma TarFile_seek_start:
  assumes f: "fh self = Some f" and s: "seekable f"
  shows "\<exists>self'. TarFile_seek (int k) 0 self = Inr self' \<and> tar_at self' (data f) k"
proof -
  have "stream_seek (int k) 0 f = Inr (f\<lparr>pos := k\<rparr>)"
    using s by (simp add: stream_seek_def)
  with f have "TarFile_seek (int k) 0 self = Inr (self\<lparr>buffer := '''', fh := Some (f\<lparr>pos := k\<rparr>)\<rparr>)"
    by (simp add: TarFile_seek_def)
  moreover have "tar_at (self\<lparr>buffer := '''', fh := Some (f\<lparr>pos := k\<rparr>)\<rparr>) (data f) k"
    by (simp add: tar_at_def)
  ultimately show ?thesis by blast
qed

section \<open>The seek law, class by class\<close>

text \<open>
  Seeking to \<open>k\<close> and reading \<open>n\<close> bytes gives the bytes that reading \<open>k + n\<close> bytes
  from a freshly opened handler gives after its first \<open>k\<close>: for a \<open>ZipFile\<close> (whose
  seek opens the member again), for the classes that seek their library stream
  (the base class and \<open>GzipFile\<close>), and for a \<open>TarFile\<close> when \<open>n\<close> is positive.
\<close>

lemma stream_read_take:
  "fst (stream_read (Some (int n)) f) = take n (drop (pos f) (data f))"
  by (simp add: stream_read_def Let_def)

lemma zip_seek_law:
  assumes c: "class_TYPE (attrs h) = ZIP" and o: "fh (attrs h) \<noteq> None"
    and g: "ZipFile_Open lib (ZipFile_close (attrs h)) (upstream h) = Inr g"
  shows "seek_then_read lib k n h = Inr (read_then_discard lib k n g)"
proof -
  from ZipFile_Open_Inr[OF g] obtain b where
    cg: "class_TYPE (attrs g) = ZIP" and fg: "fh (attrs g) = Some (new_stream b)"
    using c by (auto simp: ZipFile_close_keeps)
  define g' where "g' = PlasoFile (snd (ZipFile_read (Some (int k)) (attrs g))) (upstream g)"
  have s: "seek lib (int k) 0 h = Inr g'"
    using c o g by (auto simp: seek_def ZipFile_seek_def ZipFile_seek_start_def g'_def)
  have cg': "class_TYPE (attrs g') = ZIP"
    using cg by (simp add: g'_def ZipFile_read_keeps)
  have fg': "fh (attrs g') = Some ((new_stream b)\<lparr>pos := length (take k b)\<rparr>)"
    using fg by (simp add: g'_def ZipFile_read_def stream_read_def Let_def new_stream_def)
  have "fst (read lib (Some (int n)) g') = take n (drop k b)"
    using cg' fg'
    by (simp add: read_def ZipFile_read_def stream_read_def Let_def new_stream_def
          split: prod.split)
       (metis drop_all drop_take linorder_le_cases min.absorb1 min.absorb2 take_all)
  moreover have "fst (read lib (Some (int (k + n))) g) = take (k + n) b"
    using cg fg
    by (simp add: read_def ZipFile_read_def stream_read_def Let_def new_stream_def
          nat_int_add split: prod.split)
  ultimately show ?thesis
    using s by (simp add: seek_then_read_def read_then_discard_def drop_take)
qed

lemma plain_seek_law:
  assumes c: "class_TYPE (attrs h) \<noteq> ZIP" "class_TYPE (attrs h) \<noteq> TAR"
    and f: "fh (attrs h) = Some f" and s: "seekable f"
    and c0: "class_TYPE (attrs h0) = class_TYPE (attrs h)"
    and f0: "fh (attrs h0) = Some (new_stream (data f))"
  shows "seek_then_read lib k n h = Inr (read_then_discard lib k n h0)"
proof -
  have ss: "stream_seek (int k) 0 f = Inr (f\<lparr>pos := k\<rparr>)"
    using s by (simp add: stream_seek_def)
  define h' where "h' = PlasoFile ((attrs h)\<lparr>fh := Some (f\<lparr>pos := k\<rparr>)\<rparr>) (upstream h)"
  have sk: "seek lib (int k) 0 h = Inr h'"
    using c f ss
    by (cases "class_TYPE (attrs h)")
       (simp_all add: seek_def put_def PlasoFile_seek_def GzipFile_seek_def h'_def)
  have 1: "fst (read lib (Some (int n)) h') = take n (drop k (data f))"
    using c
    by (cases "class_TYPE (attrs h)")
       (simp_all add: read_def PlasoFile_read_def GzipFile_read_def stream_read_def Let_def
          h'_def split: prod.split)
  have 2: "fst (read lib (Some (int (k + n))) h0) = take (k + n) (data f)"
    using c c0 f0
    by (cases "class_TYPE (attrs h)")
       (simp_all add: read_def PlasoFile_read_def GzipFile_read_def stream_read_def Let_def
          new_stream_def nat_int_add split: prod.split)
  from sk 1 2 show ?thesis
    by (simp add: seek_then_read_def read_then_discard_def drop_take)
qed

lemma read_TAR:
  "class_TYPE (attrs h) = TAR \<Longrightarrow>
     read lib n h = (fst (TarFile_read lib n (attrs h)),
                     PlasoFile (snd (TarFile_read lib n (attrs h))) (upstream h))"
  by (simp add: read_def case_prod_beta)

lemma tar_seek_law:
  assumes c: "class_TYPE (attrs h) = TAR" and f: "fh (attrs h) = Some f" and s: "seekable f"
    and c0: "class_TYPE (attrs h0) = TAR" and at0: "tar_at (attrs h0) (data f) 0"
    and n: "0 < n"
  shows "seek_then_read lib k n h = Inr (read_then_discard lib k n h0)"
proof -
  from TarFile_seek_start[OF f s, of k] obtain self' where
    sk: "TarFile_seek (int k) 0 (attrs h) = Inr self'" and at: "tar_at self' (data f) k"
    by blast
  from sk c have 1: "seek lib (int k) 0 h = Inr (PlasoFile self' (upstream h))"
    by (simp add: seek_def put_def)
  from TarFile_read_positive[OF at n, of lib]
  have 2: "fst (read lib (Some (int n)) (PlasoFile self' (upstream h)))
             = take n (drop k (data f))"
    using TarFile_seek_Inr[OF sk] c by (simp add: read_TAR)
  from n have "0 < k + n" by simp
  from TarFile_read_positive[OF at0 this, of lib]
  have 3: "fst (read lib (Some (int (k + n))) h0) = take (k + n) (data f)"
    using c0 by (simp add: read_TAR)
  from 1 2 3 show ?thesis
    by (simp add: seek_then_read_def read_then_discard_def drop_take)
qed

text \<open>
  Two reads of positive sizes \<open>a\<close> and \<open>b\<close> from the start of a tar member return the
  bytes of one read of \<open>a + b\<close>.
\<close>

lemma tar_two_chunks:
  assumes c: "class_TYPE (attrs h) = TAR" and at: "tar_at (attrs h) d 0"
    and a: "0 < a" and b: "0 < b"
  shows "read_two_chunks lib a b h = fst (read lib (Some (int (a + b))) h)"
proof -
  define r where "r = TarFile_read lib (Some (int a)) (attrs h)"
  from TarFile_read_positive[OF at a, of lib]
  have 1: "fst r = take a d" and at1: "tar_at (snd r) d (length (take a d))"
    by (simp_all add: r_def)
  have k: "class_TYPE (snd r) = TAR"
    using c at a
    by (auto simp: r_def TarFile_read_def TarFile_read_fill_def Let_def ExFileObject_read_def
          split: option.splits prod.splits)
  from TarFile_read_positive[OF at1 b, of lib]
  have 2: "fst (TarFile_read lib (Some (int b)) (snd r)) = take b (drop (length (take a d)) d)"
    by simp
  have "take b (drop (length (take a d)) d) = take b (drop a d)"
    by (cases "a \<le> length d") (simp_all add: min_def)
  with 2 have 3: "fst (TarFile_read lib (Some (int b)) (snd r)) = take b (drop a d)" by simp
  from a have "0 < a + b" by simp
  from TarFile_read_positive[OF at this, of lib]
  have 4: "fst (TarFile_read lib (Some (int (a + b))) (attrs h)) = take (a + b) d" by simp
  have "read_two_chunks lib a b h = fst r @ fst (TarFile_read lib (Some (int b)) (snd r))"
    using c k by (simp add: read_two_chunks_def read_TAR r_def)
  also have "\<dots> = take (a + b) d" using 1 3 by (simp add: take_add)
  also have "\<dots> = fst (read lib (Some (int (a + b))) h)"
    using c 4 by (simp add: read_TAR)
  finally show ?thesis .
qed

section \<open>The seek law on a freshly opened handler\<close>

lemma ZipFile_Open_depends:
  assumes "pathspec self' = pathspec self" "class_TYPE self' = class_TYPE self"
    "pathspec_root self' = pathspec_root self" "buffer self' = buffer self"
    "priv_fs self' = priv_fs self" "priv_fs_obj self' = priv_fs_obj self"
    "meta self' = meta self"
  shows "ZipFile_Open lib self' filehandle = ZipFile_Open lib self filehandle"
proof -
  have "\<And>i nm dn ofs z sz st. self'\<lparr>inode := i, name := nm, display_name := dn, offset := ofs,
            zipinfo := z, size' := sz, fh := st\<rparr>
          = self\<lparr>inode := i, name := nm, display_name := dn, offset := ofs,
            zipinfo := z, size' := sz, fh := st\<rparr>"
    using assms by (cases self, cases self') simp
  then show ?thesis
    using assms(1)
    by (simp add: ZipFile_Open_def Let_def
          cong: sum.case_cong option.case_cong prod.case_cong error.case_cong)
qed

lemma ZipFile_Open_keeps:
  assumes "ZipFile_Open lib self filehandle = Inr h"
  shows "buffer (attrs h) = buffer self \<and> priv_fs (attrs h) = priv_fs self \<and>
         priv_fs_obj (attrs h) = priv_fs_obj self \<and> meta (attrs h) = meta self"
  using assms unfolding ZipFile_Open_def Let_def
  by (auto split: sum.splits option.splits prod.splits error.splits)

lemma ZipFile_close_fields:
  "buffer (ZipFile_close self) = buffer self \<and> priv_fs (ZipFile_close self) = priv_fs self \<and>
   priv_fs_obj (ZipFile_close self) = priv_fs_obj self \<and> meta (ZipFile_close self) = meta self"
  by (simp add: ZipFile_close_def split: option.split)

lemma ZipFile_reopen:
  assumes "ZipFile_Open lib self filehandle = Inr h"
  shows "ZipFile_Open lib (ZipFile_close (attrs h)) (upstream h) = Inr h"
proof -
  note a = ZipFile_Open_Inr[OF assms] and b = ZipFile_Open_keeps[OF assms]
  have "ZipFile_Open lib (ZipFile_close (attrs h)) filehandle
          = ZipFile_Open lib self filehandle"
  proof (rule ZipFile_Open_depends)
    show "pathspec (ZipFile_close (attrs h)) = pathspec self"
      using a by (simp add: ZipFile_close_keeps)
    show "class_TYPE (ZipFile_close (attrs h)) = class_TYPE self"
      using a by (simp add: ZipFile_close_keeps)
    show "pathspec_root (ZipFile_close (attrs h)) = pathspec_root self"
      using a by (simp add: ZipFile_close_keeps)
    show "buffer (ZipFile_close (attrs h)) = buffer self"
      using b by (simp add: ZipFile_close_fields)
    show "priv_fs (ZipFile_close (attrs h)) = priv_fs self"
      using b by (simp add: ZipFile_close_fields)
    show "priv_fs_obj (ZipFile_close (attrs h)) = priv_fs_obj self"
      using b by (simp add: ZipFile_close_fields)
    show "meta (ZipFile_close (attrs h)) = meta self"
      using b by (simp add: ZipFile_close_fields)
  qed
  with assms a show ?thesis by simp
qed

text \<open>What \<open>Open\<close> leaves: an object of the same class on a new library stream.\<close>

lemma Open_fresh:
  assumes "Open lib self filehandle s = (Inr h, s')"
  shows "class_TYPE (attrs h) = class_TYPE self \<and>
         (\<exists>b. fh (attrs h) = Some (new_stream b))"
proof (cases "class_TYPE self")
  case UNSET
  with assms show ?thesis by (simp add: Open_def)
next
  case OS
  with assms show ?thesis
    by (auto simp: Open_def OsFile_Open_def Let_def split: sum.splits)
next
  case TSK
  with assms show ?thesis
    by (auto simp: Open_def TskFile_Open_def OpenFileSystem_def TskFile_OpenFileSystem_def
          Let_def split: sum.splits prod.splits)
next
  case VSS
  with assms show ?thesis
    by (auto simp: Open_def VssFile_Open_def TskFile_Open_def OpenFileSystem_def
          VssFile_OpenFileSystem_def Let_def split: sum.splits prod.splits option.splits)
next
  case ZIP
  with assms have "ZipFile_Open lib self filehandle = Inr h" by (simp add: Open_def)
  from ZipFile_Open_Inr[OF this] show ?thesis by simp
next
  case GZIP
  with assms have "GzipFile_Open lib self filehandle = Inr h" by (simp add: Open_def)
  then show ?thesis unfolding GzipFile_Open_def Let_def
    by (auto split: sum.splits option.splits prod.splits error.splits)
next
  case BZ2
  with assms have "Bz2File_Open lib self filehandle = Inr h" by (simp add: Open_def)
  then show ?thesis unfolding Bz2File_Open_def Let_def
    by (auto split: sum.splits option.splits prod.splits error.splits)
next
  case TAR
  with assms have "TarFile_Open lib self filehandle = Inr h" by (simp add: Open_def)
  then show ?thesis unfolding TarFile_Open_def Let_def
    by (auto split: sum.splits option.splits prod.splits)
qed

text \<open>
  On a handler that \<open>Open\<close> has just returned, seeking to \<open>k\<close> and reading \<open>n\<close> bytes
  gives what reading \<open>k + n\<close> bytes gives without its first \<open>k\<close>, for every class but
  \<open>TarFile\<close>, and for \<open>TarFile\<close> when \<open>n\<close> is positive.
\<close>

lemma seek_law_fresh:
  assumes o: "Open lib self filehandle s = (Inr h, s')"
    and n: "class_TYPE self = TAR \<Longrightarrow> 0 < n"
  shows "seek_then_read lib k n h = Inr (read_then_discard lib k n h)"
proof -
  from Open_fresh[OF o] obtain b where c: "class_TYPE (attrs h) = class_TYPE self"
    and f: "fh (attrs h) = Some (new_stream b)" by blast
  have sk: "seekable (new_stream b)" and db: "data (new_stream b) = b"
    by (simp_all add: new_stream_def)
  show ?thesis
  proof (cases "class_TYPE self = ZIP")
    case True
    with o have z: "ZipFile_Open lib self filehandle = Inr h" by (simp add: Open_def)
    from True c f show ?thesis
      by (intro zip_seek_law ZipFile_reopen[OF z]) simp_all
  next
    case nz: False
    show ?thesis
    proof (cases "class_TYPE self = TAR")
      case True
      with o have t: "TarFile_Open lib self filehandle = Inr h" by (simp add: Open_def)
      from TarFile_Open_fresh[OF t] f have "tar_at (attrs h) (data (new_stream b)) 0"
        by (simp add: contents_def db)
      with True c f sk n show ?thesis
        by (intro tar_seek_law [where f = "new_stream b"]) simp_all
    next
      case False
      with nz c f sk show ?thesis
        by (intro plain_seek_law [where f = "new_stream b"]) (simp_all add: db)
    qed
  qed
qed

section \<open>A member that the container lacks\<close>

text \<open>
  When the container opens and the member is missing, \<open>ZipFile.Open\<close> and
  \<open>TarFile.Open\<close> raise \<open>KeyError\<close>, and the resolver passes a \<open>KeyError\<close> on as it is.
\<close>

lemma ZipFile_Open_missing_member:
  assumes "os_open lib (container_path (pathspec self)) = Inr raw"
    and "zipfile_ZipFile lib raw = Inr zf"
    and "os_stat lib (container_path (pathspec self)) = Inr st"
    and "zf (file_path (pathspec self)) = None"
  shows "ZipFile_Open lib self None = Inl (KeyError (file_path (pathspec self)))"
  using assms by (simp add: ZipFile_Open_def Let_def)

lemma TarFile_Open_missing_member:
  assumes "os_open lib (container_path (pathspec self)) = Inr raw"
    and "tarfile_open lib raw = Inr ft"
    and "os_stat lib (container_path (pathspec self)) = Inr st"
    and "ft (file_path (pathspec self)) = None"
  shows "TarFile_Open lib self None = Inl (KeyError (file_path (pathspec self)))"
  using assms by (simp add: TarFile_Open_def Let_def)

lemma OpenPFile_KeyError:
  assumes "t \<noteq> UNSET"
    and "PlasoFile_init t (PathSpec t fp cp io ii vs nested) orig = Inr handler"
    and "Open lib handler filehandle s = (Inl (KeyError k), s')"
  shows "OpenPFile lib (PathSpec t fp cp io ii vs nested) filehandle orig s
           = (Inl (KeyError k), s')"
  using assms by (simp add: Let_def)

section \<open>A read of size zero from a tar member\<close>

text \<open>
  C1.  On the two-byte member \<open>ab\<close> of \<open>a.tar\<close>, \<open>seek(1)\<close> followed by \<open>read(0)\<close>
  returns the rest of the member, \<open>b\<close>, where \<open>read(1)\<close> without its first byte is
  empty: \<open>TarFile.read\<close> takes the size 0 for no size.
\<close>

theorem tar_seek_then_read_zero:
  "\<exists>h. OpenPFile example_library (spec_tar ''ab'') None None initial_state
          = (Inr h, initial_state) \<and>
        length (contents h) = 2 \<and>
        seek_then_read example_library 1 0 h = Inr ''b'' \<and>
        read_then_discard example_library 1 0 h = ''''"
proof -
  define h where
    "h = projr (fst (OpenPFile example_library (spec_tar ''ab'') None None initial_state))"
  have o: "OpenPFile example_library (spec_tar ''ab'') None None initial_state
             = (Inr h, initial_state)"
    unfolding h_def by (simp add: example_defs eval_defs)
  have 1: "length (contents h) = 2"
    and 2: "seek_then_read example_library 1 0 h = Inr ''b''"
    and 3: "read_then_discard example_library 1 0 h = ''''"
    unfolding h_def
    by (simp_all add: example_defs eval_defs seek_then_read_def read_then_discard_def)
  show ?thesis by (rule exI [of _ h], intro conjI) (rule o 1 2 3)+
qed

text \<open>
  C4.  Opening a member that the ZIP or the TAR container lacks raises the
  \<open>KeyError\<close> of the library's lookup, which neither \<open>Open\<close> nor the resolver turns
  into an \<open>IOError\<close>.
\<close>

theorem missing_member_raises_KeyError:
  "OpenPFile example_library (spec_zip ''zz'') None None initial_state
     = (Inl (KeyError ''zz''), initial_state) \<and>
   OpenPFile example_library (spec_tar ''zz'') None None initial_state
     = (Inl (KeyError ''zz''), initial_state)"
  by (simp add: example_defs eval_defs)

text \<open>
  C6.  On the twenty-byte member \<open>syslog\<close> of \<open>a.tar\<close>, a read of 10 bytes followed by
  a read of 0 bytes returns all twenty bytes, where one read of 10 bytes returns ten.
  Chunks of 10 and 5 bytes return the fifteen bytes of a single read.
\<close>

theorem tar_chunk_of_zero:
  "\<exists>h. OpenPFile example_library (spec_tar ''syslog'') None None initial_state
          = (Inr h, initial_state) \<and>
        read_two_chunks example_library 10 0 h = ''0123456789abcdefghij'' \<and>
        fst (read example_library (Some (int (10 + 0))) h) = ''0123456789'' \<and>
        read_two_chunks example_library 10 5 h = ''0123456789abcde'' \<and>
        fst (read example_library (Some (int (10 + 5))) h) = ''0123456789abcde''"
proof -
  define h where
    "h = projr (fst (OpenPFile example_library (spec_tar ''syslog'') None None initial_state))"
  have o: "OpenPFile example_library (spec_tar ''syslog'') None None initial_state
             = (Inr h, initial_state)"
    unfolding h_def by (simp add: example_defs eval_defs)
  have 1: "read_two_chunks example_library 10 0 h = ''0123456789abcdefghij''"
    and 2: "fst (read example_library (Some (int (10 + 0))) h) = ''0123456789''"
    and 3: "read_two_chunks example_library 10 5 h = ''0123456789abcde''"
    and 4: "fst (read example_library (Some (int (10 + 5))) h) = ''0123456789abcde''"
    unfolding h_def
    by (simp_all add: example_defs eval_defs read_two_chunks_def)
  show ?thesis by (rule exI [of _ h], intro conjI) (rule o 1 2 3 4)+
qed

end
